theory Spec2Isabelle
  imports Complex_Main
begin

text \<open>
  The order controller of the shop server, \<open>server/controllers/orderController.js\<close>:
  the handlers \<open>placeNewOrder\<close>, \<open>fetchSingleOrder\<close>, \<open>updateOrderStatus\<close> and
  \<open>deleteOrder\<close>, each as a function from the request and the store to what the
  handler does and the store it leaves.
\<close>

section \<open>Values of the request\<close>

text \<open>
  The controller reads its input from \<open>req.body\<close>, which holds JSON values. A field
  that is absent reads as \<open>undefined\<close>: a \<open>json option\<close>, with \<open>None\<close> for
  \<open>undefined\<close>. A JavaScript Number is a binary64 floating-point number: it is
  modelled as the rational it stands for, and every product and sum of the
  handler is rounded to the nearest binary64 number (\<open>binary64\<close> below).
  Quantities and stock are integers.

  The elements of a cart array are well-formed cart lines, as the data model has
  them: \<open>item.product.id\<close>, \<open>item.quantity\<close> and the image list
  \<open>item.product.images\<close> (here the list of the images' urls).
\<close>

type_synonym uuid = string

record cart_product =
  product_id :: uuid
  images :: "string list"

record cart_line =
  product :: cart_product
  quantity :: int

datatype json =
  JNull
  | JBool bool
  | JNum rat
  | JStr string
  | JArr "cart_line list"
  | JObj "(string \<times> json) list"

text \<open>JavaScript's truthiness: \<open>!v\<close> is \<open>falsy v\<close>.\<close>

fun truthy :: "json \<Rightarrow> bool" where
  "truthy JNull = False"
| "truthy (JBool b) = b"
| "truthy (JNum n) = (n \<noteq> 0)"
| "truthy (JStr s) = (s \<noteq> [])"
| "truthy (JArr xs) = True"
| "truthy (JObj kvs) = True"

definition falsy :: "json option \<Rightarrow> bool" where
  "falsy v = (case v of None \<Rightarrow> True | Some j \<Rightarrow> \<not> truthy j)"

text \<open>
  \<open>v.length\<close> of a value that is not null: the number of elements of an array,
  the number of characters of a string, the property named \<open>length\<close> of an
  object, and \<open>undefined\<close> otherwise.
\<close>

fun js_length :: "json \<Rightarrow> json option" where
  "js_length (JArr xs) = Some (JNum (of_nat (length xs)))"
| "js_length (JStr s) = Some (JNum (of_nat (length s)))"
| "js_length (JObj kvs) = map_of kvs ''length''"
| "js_length j = None"

text \<open>
  binary64 arithmetic. A number other than 0 with \<open>2^e \<le> |x| < 2^(e+1)\<close> lies between
  two neighbours of the grid of step \<open>2^(e-52)\<close> (below \<open>2^-1022\<close> the step stays
  \<open>2^-1074\<close>); \<open>binary64 x\<close> is the nearer one, and of two equally near the one
  with the even multiple. This is the rounding of IEEE 754 that JavaScript uses for
  \<open>+\<close>, \<open>*\<close> and the conversion of a decimal text to a Number. A result of size
  \<open>2^1024\<close> or more is Infinity in JavaScript and has no value here: what is
  proved of the value of a total is stated for carts whose amounts stay below it.
\<close>

function log2_int :: "int \<Rightarrow> int" where
  "log2_int n = (if n < 2 then 0 else 1 + log2_int (n div 2))"
  by pat_completeness auto
termination
  by (relation "measure nat") auto

definition pow2 :: "int \<Rightarrow> rat" where
  "pow2 e = (if e \<ge> 0 then 2 ^ nat e else 1 / 2 ^ nat (- e))"

text \<open>
  The \<open>e\<close> with \<open>2^e \<le> x < 2^(e+1)\<close>, for \<open>x > 0\<close> with numerator \<open>p\<close> and
  denominator \<open>q\<close>: the difference of the bit lengths of \<open>p\<close> and \<open>q\<close>, or one less.
\<close>

definition floor_log2 :: "rat \<Rightarrow> int" where
  "floor_log2 x =
     (case quotient_of x of
        (p, q) \<Rightarrow>
          let e0 = log2_int p - log2_int q
          in if pow2 e0 \<le> x then e0 else e0 - 1)"

definition round_half_even :: "rat \<Rightarrow> int" where
  "round_half_even k =
     (let n = \<lfloor>k\<rfloor>; r = k - of_int n
      in if r < 1 / 2 then n else if r > 1 / 2 then n + 1 else if even n then n else n + 1)"

definition binary64 :: "rat \<Rightarrow> rat" where
  "binary64 x =
     (if x = 0 then 0
      else
        let u = pow2 (max (floor_log2 \<bar>x\<bar>) (- 1022) - 52)
        in of_int (round_half_even (x / u)) * u)"

text \<open>
  \<open>a + b\<close> and \<open>a * b\<close> on Numbers, and the Number a decimal value becomes: the
  price of a product reaches the handler as the column's decimal text (or as a
  Number already, which \<open>binary64\<close> leaves as it is), and \<open>*\<close> converts it.
\<close>

definition js_add :: "rat \<Rightarrow> rat \<Rightarrow> rat" where
  "js_add a b = binary64 (a + b)"

definition js_mul :: "rat \<Rightarrow> rat \<Rightarrow> rat" where
  "js_mul a b = binary64 (a * b)"

definition to_number :: "rat \<Rightarrow> rat" where
  "to_number x = binary64 x"

text \<open>\<open>Math.round\<close>: the nearest integer, a tie going up.\<close>

definition Math_round :: "rat \<Rightarrow> rat" where
  "Math_round x = of_int \<lfloor>x + 1 / 2\<rfloor>"

text \<open>The decimal text of an integer, as a template literal prints it.\<close>

fun decimal_of_nat :: "nat \<Rightarrow> string" where
  "decimal_of_nat n =
     (if n < 10 then [''0123456789'' ! n]
      else decimal_of_nat (n div 10) @ [''0123456789'' ! (n mod 10)])"

definition decimal_of_int :: "int \<Rightarrow> string" where
  "decimal_of_int i =
     (if i < 0 then CHR ''-'' # decimal_of_nat (nat (- i)) else decimal_of_nat (nat i))"

section \<open>The store\<close>

text \<open>
  One record per table, with the columns the statements of the controller name.
  A table is the list of its rows. The table definitions themselves are not part
  of the sources; a statement changes the rows its text names, and no others.
\<close>

record product_row =
  p_id :: uuid
  p_price :: rat
  p_stock :: int
  p_name :: string

record order_row =
  o_id :: uuid
  buyer_id :: uuid
  total_price :: rat
  tax_price :: rat
  shipping_price :: rat
  order_status :: json
  paid_at :: "nat option"

record order_item_row =
  oi_id :: uuid
  oi_order_id :: "uuid option"
  oi_product_id :: uuid
  oi_quantity :: int
  oi_price :: rat
  oi_image :: string
  oi_title :: string

record shipping_row =
  s_id :: uuid
  s_order_id :: "uuid option"
  s_full_name :: "json option"
  s_state :: "json option"
  s_city :: "json option"
  s_country :: "json option"
  s_address :: "json option"
  s_pincode :: "json option"
  s_phone :: "json option"

record payment_row =
  pay_order_id :: "uuid option"
  payment_type :: string
  payment_status :: string
  payment_intent_id :: "string option"

record db =
  products :: "product_row list"
  orders :: "order_row list"
  order_items :: "order_item_row list"
  shipping_info :: "shipping_row list"
  payments :: "payment_row list"

section \<open>The environment of a handler\<close>

text \<open>
  What a handler uses and the sources do not define:
  \<^item> \<open>JSON_parse v\<close> is \<open>JSON.parse(v)\<close>: \<open>None\<close> when it throws a SyntaxError;
  \<^item> \<open>rejects q\<close> says that the store rejects the statement \<open>q\<close> of this run
    (\<open>database.query\<close> returns a promise, which may reject: a fault of the
    store, or a constraint of a table that the statement violates);
  \<^item> \<open>gen_id\<close> is the identifier the store gives a new row;
  \<^item> \<open>now\<close> is the value of \<open>NOW()\<close>.
\<close>

datatype stmt =
  Select_products
  | Insert_order
  | Insert_order_items
  | Insert_shipping_info
  | Insert_payment
  | Update_stock nat
  | Select_order_joined
  | Select_order
  | Update_order_status
  | Delete_order

record env =
  JSON_parse :: "json \<Rightarrow> json option"
  rejects :: "stmt \<Rightarrow> bool"
  gen_id :: "db \<Rightarrow> uuid"
  now :: nat

text \<open>
  What a run of a handler does: the errors it hands to \<open>next\<close>, in order
  (each an \<open>ErrorHandler(message, statusCode)\<close>), how it ends, and the store it
  leaves. It ends by returning without a response of its own (after a call of
  \<open>next\<close>), by its call of \<open>res.status(200).json(...)\<close> with the response, or by
  an exception (a thrown error or a rejected query, which \<open>catchAsyncErrors\<close>
  receives).
\<close>

record http_error =
  message :: string
  statusCode :: nat

datatype exn = SyntaxError | TypeError | DbError

datatype 'a ending = Returned | Json 'a | Throw exn

record 'a result =
  nexts :: "http_error list"
  ending :: "'a ending"
  store :: db

definition ErrorHandler :: "string \<Rightarrow> nat \<Rightarrow> http_error" where
  "ErrorHandler m c = \<lparr>message = m, statusCode = c\<rparr>"

section \<open>placeNewOrder\<close>

record place_body =
  full_name :: "json option"
  state :: "json option"
  city :: "json option"
  country :: "json option"
  address :: "json option"
  pincode :: "json option"
  phone :: "json option"
  orderedItems :: "json option"

record place_req =
  body :: place_body
  user_id :: uuid

record place_response =
  r_success :: bool
  r_message :: string
  r_order :: order_row
  r_total_price :: rat

text \<open>Step 1, the condition of lines 19 to 27.\<close>

definition shipping_missing :: "place_body \<Rightarrow> bool" where
  "shipping_missing b =
     (falsy (full_name b) \<or> falsy (state b) \<or> falsy (city b) \<or> falsy (country b) \<or>
      falsy (address b) \<or> falsy (pincode b) \<or> falsy (phone b))"

text \<open>Step 2: \<open>Array.isArray(orderedItems) ? orderedItems : JSON.parse(orderedItems || "[]")\<close>.\<close>

definition parse_items :: "env \<Rightarrow> json option \<Rightarrow> json option" where
  "parse_items e oi =
     (case oi of
        Some (JArr xs) \<Rightarrow> Some (JArr xs)
      | Some j \<Rightarrow> JSON_parse e (if truthy j then j else JStr ''[]'')
      | None \<Rightarrow> JSON_parse e (JStr ''[]''))"

text \<open>Step 3: \<open>SELECT id, price, stock, name FROM products WHERE id = ANY($1::uuid[])\<close>.\<close>

definition sql_select_products :: "uuid list \<Rightarrow> db \<Rightarrow> product_row list" where
  "sql_select_products ids d = filter (\<lambda>p. p_id p \<in> set ids) (products d)"

text \<open>
  The loop over the items (lines 53 to 89). Its variables are \<open>total_price\<close>,
  \<open>values\<close> (six values a row, the first \<open>null\<close> until the order exists) and
  \<open>placeholders\<close> (a row's placeholders are \<open>$(offset+1)\<close> to \<open>$(offset+6)\<close>,
  kept here as the offset). A \<open>return next(...)\<close> in the callback leaves the
  callback only: the loop goes on with the next item.
\<close>

record item_values =
  v_order_id :: "uuid option"
  v_product_id :: uuid
  v_quantity :: int
  v_price :: rat
  v_image :: string
  v_title :: string

record forEach_state =
  fe_total_price :: rat
  fe_values :: "item_values list"
  fe_placeholders :: "nat list"
  fe_nexts :: "http_error list"

definition first_image_url :: "cart_line \<Rightarrow> string" where
  "first_image_url item = (case images (product item) of [] \<Rightarrow> [] | u # us \<Rightarrow> u)"

definition forEach_callback ::
  "product_row list \<Rightarrow> cart_line \<Rightarrow> nat \<Rightarrow> forEach_state \<Rightarrow> forEach_state" where
  "forEach_callback ps item index st =
     (case find (\<lambda>p. p_id p = product_id (product item)) ps of
        None \<Rightarrow>
          st\<lparr>fe_nexts := fe_nexts st @
            [ErrorHandler (''Product not found for ID: '' @ product_id (product item)) 404]\<rparr>
      | Some p \<Rightarrow>
          if quantity item > p_stock p then
            st\<lparr>fe_nexts := fe_nexts st @
              [ErrorHandler (''Only '' @ decimal_of_int (p_stock p) @
                 '' units available for '' @ p_name p) 400]\<rparr>
          else
            st\<lparr>fe_total_price :=
                 js_add (fe_total_price st)
                   (js_mul (to_number (p_price p)) (to_number (of_int (quantity item)))),
               fe_values := fe_values st @
                 [\<lparr>v_order_id = None, v_product_id = p_id p, v_quantity = quantity item,
                   v_price = p_price p, v_image = first_image_url item, v_title = p_name p\<rparr>],
               fe_placeholders := fe_placeholders st @ [index * 6]\<rparr>)"

fun forEach_items ::
  "product_row list \<Rightarrow> cart_line list \<Rightarrow> nat \<Rightarrow> forEach_state \<Rightarrow> forEach_state" where
  "forEach_items ps [] index st = st"
| "forEach_items ps (item # rest) index st =
     forEach_items ps rest (Suc index) (forEach_callback ps item index st)"

text \<open>
  Step 4, from the sum \<open>total_price\<close> of the loop: \<open>tax_price = 0.18\<close>,
  \<open>shipping_price = total_price >= 50 ? 0 : 2\<close> and the new
  \<open>total_price = Math.round(total_price + total_price * tax_price + shipping_price)\<close>.
  In the arithmetic \<open>tax_price\<close> is the Number nearest to 0.18; the order row gets
  it as the text \<open>0.18\<close>, the decimal \<open>tax_price_const\<close>.
\<close>

definition tax_price_const :: rat where
  "tax_price_const = 18 / 100"

definition shipping_price_of :: "rat \<Rightarrow> rat" where
  "shipping_price_of t = (if t \<ge> 50 then 0 else 2)"

definition total_price_of :: "rat \<Rightarrow> rat" where
  "total_price_of t =
     Math_round
       (js_add (js_add t (js_mul t (to_number tax_price_const))) (shipping_price_of t))"

text \<open>Step 5: \<open>INSERT INTO orders (...) VALUES ($1, $2, $3, $4, 'Processing', NOW()) RETURNING *\<close>.\<close>

definition new_order :: "env \<Rightarrow> uuid \<Rightarrow> rat \<Rightarrow> rat \<Rightarrow> rat \<Rightarrow> db \<Rightarrow> order_row" where
  "new_order e buyer tp tx sp d =
     \<lparr>o_id = gen_id e d, buyer_id = buyer, total_price = tp,
      tax_price = tx, shipping_price = sp,
      order_status = JStr ''Processing'', paid_at = Some (now e)\<rparr>"

definition sql_insert_order :: "order_row \<Rightarrow> db \<Rightarrow> db" where
  "sql_insert_order ord d = d\<lparr>orders := orders d @ [ord]\<rparr>"

text \<open>
  Step 6: \<open>INSERT INTO order_items (...) VALUES <placeholders joined by ", ">\<close> with
  \<open>values\<close> as its parameters. The store takes the statement only when its text is
  well formed and names exactly the parameters it is given: with no placeholder
  the text ends in \<open>VALUES\<close> and nothing (a syntax error), and with an offset that
  skips a row the text names parameters beyond the values bound to it. So the
  placeholders must be the offsets 0, 6, ... of the rows of \<open>values\<close>, at least one.
\<close>

definition statement_binds :: "nat list \<Rightarrow> item_values list \<Rightarrow> bool" where
  "statement_binds phs vals =
     (phs \<noteq> [] \<and> phs = map (\<lambda>j. j * 6) [0..<length vals])"

definition insert_item_row :: "env \<Rightarrow> item_values \<Rightarrow> db \<Rightarrow> db" where
  "insert_item_row e v d =
     d\<lparr>order_items := order_items d @
        [\<lparr>oi_id = gen_id e d, oi_order_id = v_order_id v, oi_product_id = v_product_id v,
          oi_quantity = v_quantity v, oi_price = v_price v, oi_image = v_image v,
          oi_title = v_title v\<rparr>]\<rparr>"

definition sql_insert_order_items :: "env \<Rightarrow> item_values list \<Rightarrow> db \<Rightarrow> db" where
  "sql_insert_order_items e vals d = fold (insert_item_row e) vals d"

text \<open>Step 7: \<open>INSERT INTO shipping_info (...) VALUES ($1, ..., $8)\<close>.\<close>

definition sql_insert_shipping_info :: "env \<Rightarrow> uuid \<Rightarrow> place_body \<Rightarrow> db \<Rightarrow> db" where
  "sql_insert_shipping_info e oid b d =
     d\<lparr>shipping_info := shipping_info d @
        [\<lparr>s_id = gen_id e d, s_order_id = Some oid, s_full_name = full_name b,
          s_state = state b, s_city = city b, s_country = country b,
          s_address = address b, s_pincode = pincode b, s_phone = phone b\<rparr>]\<rparr>"

text \<open>Step 8: the payment row, \<open>[orderId, "Online", "Paid", null]\<close>.\<close>

definition sql_insert_payment :: "uuid \<Rightarrow> db \<Rightarrow> db" where
  "sql_insert_payment oid d =
     d\<lparr>payments := payments d @
        [\<lparr>pay_order_id = Some oid, payment_type = ''Online'', payment_status = ''Paid'',
          payment_intent_id = None\<rparr>]\<rparr>"

text \<open>Step 9: \<open>UPDATE products SET stock = stock - $1 WHERE id = $2\<close>, once an item.\<close>

definition sql_update_stock :: "int \<Rightarrow> uuid \<Rightarrow> db \<Rightarrow> db" where
  "sql_update_stock q pid d =
     d\<lparr>products := map (\<lambda>p. if p_id p = pid then p\<lparr>p_stock := p_stock p - q\<rparr> else p)
        (products d)\<rparr>"

text \<open>
  The loop of step 9 over the items, \<open>k\<close> counting them. A rejected update ends
  the handler with the store as the updates before it left it: the result is the
  exception, if any, and that store.
\<close>

fun reduce_stock :: "env \<Rightarrow> cart_line list \<Rightarrow> nat \<Rightarrow> db \<Rightarrow> exn option \<times> db" where
  "reduce_stock e [] k d = (None, d)"
| "reduce_stock e (item # rest) k d =
     (if rejects e (Update_stock k) then (Some DbError, d)
      else reduce_stock e rest (Suc k)
             (sql_update_stock (quantity item) (product_id (product item)) d))"

text \<open>Steps 3 to 9, for the items of a cart that passed step 2.\<close>

definition place_items :: "env \<Rightarrow> place_req \<Rightarrow> cart_line list \<Rightarrow> db \<Rightarrow> place_response result" where
  "place_items e req items d =
     (if rejects e Select_products then \<lparr>nexts = [], ending = Throw DbError, store = d\<rparr>
      else
        let ps = sql_select_products (map (\<lambda>item. product_id (product item)) items) d;
            st = forEach_items ps items 0
                   \<lparr>fe_total_price = 0, fe_values = [], fe_placeholders = [], fe_nexts = []\<rparr>
        in
        if rejects e Insert_order
        then \<lparr>nexts = fe_nexts st, ending = Throw DbError, store = d\<rparr>
        else
          let ord = new_order e (user_id req) (total_price_of (fe_total_price st))
                      tax_price_const (shipping_price_of (fe_total_price st)) d;
              d1 = sql_insert_order ord d;
              vals = map (\<lambda>v. v\<lparr>v_order_id := Some (o_id ord)\<rparr>) (fe_values st)
          in
          if rejects e Insert_order_items \<or> \<not> statement_binds (fe_placeholders st) vals
          then \<lparr>nexts = fe_nexts st, ending = Throw DbError, store = d1\<rparr>
          else
            let d2 = sql_insert_order_items e vals d1 in
            if rejects e Insert_shipping_info
            then \<lparr>nexts = fe_nexts st, ending = Throw DbError, store = d2\<rparr>
            else
              let d3 = sql_insert_shipping_info e (o_id ord) (body req) d2 in
              if rejects e Insert_payment
              then \<lparr>nexts = fe_nexts st, ending = Throw DbError, store = d3\<rparr>
              else
                let d4 = sql_insert_payment (o_id ord) d3 in
                (case reduce_stock e items 0 d4 of
                   (Some x, d5) \<Rightarrow> \<lparr>nexts = fe_nexts st, ending = Throw x, store = d5\<rparr>
                 | (None, d5) \<Rightarrow>
                     \<lparr>nexts = fe_nexts st,
                      ending = Json \<lparr>r_success = True, r_message = ''Order placed successfully.'',
                                     r_order = ord,
                                     r_total_price = total_price_of (fe_total_price st)\<rparr>,
                      store = d5\<rparr>))"

definition placeNewOrder :: "env \<Rightarrow> place_req \<Rightarrow> db \<Rightarrow> place_response result" where
  "placeNewOrder e req d =
     (let b = body req in
      if shipping_missing b
      then \<lparr>nexts = [ErrorHandler ''Please provide complete shipping details.'' 400],
            ending = Returned, store = d\<rparr>
      else
        case parse_items e (orderedItems b) of
          None \<Rightarrow> \<lparr>nexts = [], ending = Throw SyntaxError, store = d\<rparr>
        | Some items \<Rightarrow>
            if falsy (Some items) \<or> js_length items = Some (JNum 0)
            then \<lparr>nexts = [ErrorHandler ''No items in cart.'' 400], ending = Returned, store = d\<rparr>
            else
              (case items of
                 JArr xs \<Rightarrow> place_items e req xs d
               | _ \<Rightarrow> \<lparr>nexts = [], ending = Throw TypeError, store = d\<rparr>))"

section \<open>placeNewOrder, one awaited statement at a time\<close>

text \<open>
  \<open>placeNewOrder\<close> is an async function: it runs to its next \<open>await
  database.query(...)\<close>, and goes on when the store has run that statement. The
  store runs one statement at a time; between two statements of one request it may
  run statements of other requests. A task is a request at an \<open>await\<close>, with the
  local variables the rest of the handler reads: the request and its items, after
  the loop the variables of the loop, after the order insert the order row, and in
  the loop of step 9 the number of the item, the item and the items still to come.
\<close>

record locals =
  l_req :: place_req
  l_items :: "cart_line list"
  l_loop :: forEach_state

datatype place_task =
  Await_select place_req "cart_line list"
  | Await_insert_order locals
  | Await_insert_items locals order_row
  | Await_insert_shipping locals order_row
  | Await_insert_payment locals order_row
  | Await_update_stock locals order_row nat cart_line "cart_line list"
  | Ended "http_error list" "place_response ending"

text \<open>The handler up to its first \<open>await\<close> (lines 7 to 43).\<close>

definition task_begin :: "env \<Rightarrow> place_req \<Rightarrow> place_task" where
  "task_begin e req =
     (let b = body req in
      if shipping_missing b
      then Ended [ErrorHandler ''Please provide complete shipping details.'' 400] Returned
      else
        case parse_items e (orderedItems b) of
          None \<Rightarrow> Ended [] (Throw SyntaxError)
        | Some items \<Rightarrow>
            if falsy (Some items) \<or> js_length items = Some (JNum 0)
            then Ended [ErrorHandler ''No items in cart.'' 400] Returned
            else
              (case items of
                 JArr xs \<Rightarrow> Await_select req xs
               | _ \<Rightarrow> Ended [] (Throw TypeError)))"

text \<open>The loop of step 9 at its next item, or the response after the last.\<close>

definition next_stock :: "locals \<Rightarrow> order_row \<Rightarrow> nat \<Rightarrow> cart_line list \<Rightarrow> place_task" where
  "next_stock l ord k items =
     (case items of
        [] \<Rightarrow>
          Ended (fe_nexts (l_loop l))
            (Json \<lparr>r_success = True, r_message = ''Order placed successfully.'', r_order = ord,
                   r_total_price = total_price_of (fe_total_price (l_loop l))\<rparr>)
      | item # rest \<Rightarrow> Await_update_stock l ord k item rest)"

text \<open>
  One step of a task: the store runs the awaited statement, and the handler runs
  to its next \<open>await\<close> or to its end.
\<close>

definition task_step :: "env \<Rightarrow> place_task \<Rightarrow> db \<Rightarrow> place_task \<times> db" where
  "task_step e t d =
     (case t of
        Await_select req items \<Rightarrow>
          if rejects e Select_products then (Ended [] (Throw DbError), d)
          else
            (Await_insert_order
               \<lparr>l_req = req, l_items = items,
                l_loop = forEach_items
                  (sql_select_products (map (\<lambda>item. product_id (product item)) items) d) items 0
                  \<lparr>fe_total_price = 0, fe_values = [], fe_placeholders = [], fe_nexts = []\<rparr>\<rparr>,
             d)
      | Await_insert_order l \<Rightarrow>
          if rejects e Insert_order then (Ended (fe_nexts (l_loop l)) (Throw DbError), d)
          else
            let ord = new_order e (user_id (l_req l)) (total_price_of (fe_total_price (l_loop l)))
                        tax_price_const (shipping_price_of (fe_total_price (l_loop l))) d
            in (Await_insert_items l ord, sql_insert_order ord d)
      | Await_insert_items l ord \<Rightarrow>
          let vals = map (\<lambda>v. v\<lparr>v_order_id := Some (o_id ord)\<rparr>) (fe_values (l_loop l)) in
          if rejects e Insert_order_items \<or> \<not> statement_binds (fe_placeholders (l_loop l)) vals
          then (Ended (fe_nexts (l_loop l)) (Throw DbError), d)
          else (Await_insert_shipping l ord, sql_insert_order_items e vals d)
      | Await_insert_shipping l ord \<Rightarrow>
          if rejects e Insert_shipping_info then (Ended (fe_nexts (l_loop l)) (Throw DbError), d)
          else (Await_insert_payment l ord,
                sql_insert_shipping_info e (o_id ord) (body (l_req l)) d)
      | Await_insert_payment l ord \<Rightarrow>
          if rejects e Insert_payment then (Ended (fe_nexts (l_loop l)) (Throw DbError), d)
          else (next_stock l ord 0 (l_items l), sql_insert_payment (o_id ord) d)
      | Await_update_stock l ord k item rest \<Rightarrow>
          if rejects e (Update_stock k) then (Ended (fe_nexts (l_loop l)) (Throw DbError), d)
          else (next_stock l ord (Suc k) rest,
                sql_update_stock (quantity item) (product_id (product item)) d)
      | Ended ns x \<Rightarrow> (Ended ns x, d))"

text \<open>A task alone: its steps one after the other, at most \<open>n\<close> of them.\<close>

fun task_run :: "env \<Rightarrow> nat \<Rightarrow> place_task \<Rightarrow> db \<Rightarrow> place_task \<times> db" where
  "task_run e 0 t d = (t, d)"
| "task_run e (Suc n) t d = (case task_step e t d of (t', d') \<Rightarrow> task_run e n t' d')"

definition task_result :: "place_task \<times> db \<Rightarrow> place_response result option" where
  "task_result td =
     (case td of
        (Ended ns x, d) \<Rightarrow> Some \<lparr>nexts = ns, ending = x, store = d\<rparr>
      | _ \<Rightarrow> None)"

text \<open>The steps a task has left at most.\<close>

fun steps_left :: "place_task \<Rightarrow> nat" where
  "steps_left (Await_select req items) = 5 + length items"
| "steps_left (Await_insert_order l) = 4 + length (l_items l)"
| "steps_left (Await_insert_items l ord) = 3 + length (l_items l)"
| "steps_left (Await_insert_shipping l ord) = 2 + length (l_items l)"
| "steps_left (Await_insert_payment l ord) = 1 + length (l_items l)"
| "steps_left (Await_update_stock l ord k item rest) = 1 + length rest"
| "steps_left (Ended ns x) = 0"

text \<open>
  Several requests at once: the tasks and the store they share. A schedule names,
  step by step, the task whose awaited statement the store runs next.
\<close>

fun sys_run :: "env \<Rightarrow> nat list \<Rightarrow> place_task list \<Rightarrow> db \<Rightarrow> place_task list \<times> db" where
  "sys_run e [] ts d = (ts, d)"
| "sys_run e (i # sched) ts d =
     (if i < length ts
      then (case task_step e (ts ! i) d of (t', d') \<Rightarrow> sys_run e sched (ts[i := t']) d')
      else sys_run e sched ts d)"

text \<open>The requests one after the other, each handler running to its end.\<close>

fun place_seq :: "env \<Rightarrow> place_req list \<Rightarrow> db \<Rightarrow> place_response result list \<times> db" where
  "place_seq e [] d = ([], d)"
| "place_seq e (req # reqs) d =
     (case place_seq e reqs (store (placeNewOrder e req d)) of
        (rs, d') \<Rightarrow> (placeNewOrder e req d # rs, d'))"

section \<open>fetchSingleOrder\<close>

record order_item_json =
  j_order_item_id :: uuid
  j_order_id :: "uuid option"
  j_product_id :: uuid
  j_quantity :: int
  j_price :: rat

record shipping_json =
  j_full_name :: "json option"
  j_state :: "json option"
  j_city :: "json option"
  j_country :: "json option"
  j_address :: "json option"
  j_pincode :: "json option"
  j_phone :: "json option"

record joined_order =
  jo_order :: order_row
  jo_order_items :: "order_item_json list"
  jo_shipping_info :: shipping_json

record 'a response =
  res_success :: bool
  res_message :: string
  res_data :: 'a

text \<open>
  The query of lines 161 to 189. \<open>LEFT JOIN t ON c\<close> pairs a row with every row of
  \<open>t\<close> that satisfies \<open>c\<close>, and with \<open>NULL\<close> (here \<open>None\<close>) when there is none.
\<close>

definition left_join :: "('b \<Rightarrow> bool) \<Rightarrow> 'b list \<Rightarrow> 'b option list" where
  "left_join c t = (case filter c t of [] \<Rightarrow> [None] | m # ms \<Rightarrow> map Some (m # ms))"

definition joined_rows ::
  "uuid \<Rightarrow> db \<Rightarrow> (order_row \<times> order_item_row option \<times> shipping_row option) list" where
  "joined_rows orderId d =
     concat (map (\<lambda>od.
       concat (map (\<lambda>oi.
         map (\<lambda>s. (od, oi, s))
           (left_join (\<lambda>s. s_order_id s = Some (o_id od)) (shipping_info d)))
         (left_join (\<lambda>oi. oi_order_id oi = Some (o_id od)) (order_items d))))
       (filter (\<lambda>od. o_id od = orderId) (orders d)))"

text \<open>
  \<open>GROUP BY o.id, s.id\<close>: the rows that agree on both, one group a key. SQL
  leaves the order of the groups open; an order row with at most one shipping
  record gives one group.
\<close>

definition group_key ::
  "order_row \<times> order_item_row option \<times> shipping_row option \<Rightarrow> uuid \<times> uuid option" where
  "group_key r = (case r of (od, oi, s) \<Rightarrow> (o_id od, map_option s_id s))"

definition group_by_key ::
  "(order_row \<times> order_item_row option \<times> shipping_row option) list
   \<Rightarrow> (order_row \<times> order_item_row option \<times> shipping_row option) list list" where
  "group_by_key rows =
     map (\<lambda>k. filter (\<lambda>r. group_key r = k) rows) (remdups (map group_key rows))"

text \<open>
  The columns of a group: \<open>o.*\<close>, the \<open>json_agg\<close> of the items of the group whose
  \<open>oi.id\<close> is not null (\<open>COALESCE\<close> to the empty list), and the \<open>json_build_object\<close>
  of the shipping columns, each \<open>null\<close> when the join found no shipping row.
\<close>

definition item_json :: "order_item_row \<Rightarrow> order_item_json" where
  "item_json oi =
     \<lparr>j_order_item_id = oi_id oi, j_order_id = oi_order_id oi,
      j_product_id = oi_product_id oi, j_quantity = oi_quantity oi, j_price = oi_price oi\<rparr>"

definition shipping_object :: "shipping_row option \<Rightarrow> shipping_json" where
  "shipping_object so =
     (case so of
        None \<Rightarrow>
          \<lparr>j_full_name = None, j_state = None, j_city = None, j_country = None,
           j_address = None, j_pincode = None, j_phone = None\<rparr>
      | Some s \<Rightarrow>
          \<lparr>j_full_name = s_full_name s, j_state = s_state s, j_city = s_city s,
           j_country = s_country s, j_address = s_address s, j_pincode = s_pincode s,
           j_phone = s_phone s\<rparr>)"

definition aggregate ::
  "(order_row \<times> order_item_row option \<times> shipping_row option) list \<Rightarrow> joined_order option" where
  "aggregate g =
     (case g of
        [] \<Rightarrow> None
      | (od, oi, s) # rest \<Rightarrow>
          Some \<lparr>jo_order = od,
                jo_order_items = map item_json (List.map_filter (\<lambda>r. fst (snd r)) g),
                jo_shipping_info = shipping_object s\<rparr>)"

definition sql_select_order_joined :: "uuid \<Rightarrow> db \<Rightarrow> joined_order list" where
  "sql_select_order_joined orderId d =
     List.map_filter aggregate (group_by_key (joined_rows orderId d))"

text \<open>\<open>result.rows[0]\<close> is \<open>undefined\<close> (\<open>None\<close>) when the query returns no row.\<close>

definition fetchSingleOrder :: "env \<Rightarrow> uuid \<Rightarrow> db \<Rightarrow> joined_order option response result" where
  "fetchSingleOrder e orderId d =
     (if rejects e Select_order_joined then \<lparr>nexts = [], ending = Throw DbError, store = d\<rparr>
      else
        let rows = sql_select_order_joined orderId d in
        \<lparr>nexts = [],
         ending = Json \<lparr>res_success = True, res_message = ''Order fetched.'',
                        res_data = (case rows of [] \<Rightarrow> None | r # rs \<Rightarrow> Some r)\<rparr>,
         store = d\<rparr>)"

section \<open>updateOrderStatus\<close>

text \<open>\<open>SELECT * FROM orders WHERE id = $1\<close>.\<close>

definition sql_select_order :: "uuid \<Rightarrow> db \<Rightarrow> order_row list" where
  "sql_select_order orderId d = filter (\<lambda>od. o_id od = orderId) (orders d)"

text \<open>\<open>UPDATE orders SET order_status = $1 WHERE id = $2\<close>; \<open>RETURNING *\<close> are the rows it set.\<close>

definition sql_update_order_status :: "json \<Rightarrow> uuid \<Rightarrow> db \<Rightarrow> db" where
  "sql_update_order_status st orderId d =
     d\<lparr>orders := map (\<lambda>od. if o_id od = orderId then od\<lparr>order_status := st\<rparr> else od)
                    (orders d)\<rparr>"

definition updateOrderStatus ::
  "env \<Rightarrow> json option \<Rightarrow> uuid \<Rightarrow> db \<Rightarrow> order_row option response result" where
  "updateOrderStatus e status orderId d =
     (case status of
        None \<Rightarrow>
          \<lparr>nexts = [ErrorHandler ''Provide a valid status for order.'' 400],
           ending = Returned, store = d\<rparr>
      | Some st \<Rightarrow>
          if falsy (Some st)
          then \<lparr>nexts = [ErrorHandler ''Provide a valid status for order.'' 400],
                ending = Returned, store = d\<rparr>
          else if rejects e Select_order
          then \<lparr>nexts = [], ending = Throw DbError, store = d\<rparr>
          else if length (sql_select_order orderId d) = 0
          then \<lparr>nexts = [ErrorHandler ''Invalid order ID.'' 404], ending = Returned, store = d\<rparr>
          else if rejects e Update_order_status
          then \<lparr>nexts = [], ending = Throw DbError, store = d\<rparr>
          else
            let d' = sql_update_order_status st orderId d;
                rows = sql_select_order orderId d'
            in
            \<lparr>nexts = [],
             ending = Json \<lparr>res_success = True, res_message = ''Order status updated.'',
                            res_data = (case rows of [] \<Rightarrow> None | r # rs \<Rightarrow> Some r)\<rparr>,
             store = d'\<rparr>)"

section \<open>deleteOrder\<close>

text \<open>
  Modelled from the spec: the table definitions are missing from the sources, and
  with them what the store does to the rows of other tables that refer to a deleted
  order. The spec (section 4.6 and the design notes) has the statement
  \<open>DELETE FROM orders WHERE id = $1 RETURNING *\<close> remove the Order row only; so
  \<open>sql_delete_order\<close> removes the rows of \<open>orders\<close> with the identifier and
  leaves every other table as it is.
\<close>

definition sql_delete_order :: "uuid \<Rightarrow> db \<Rightarrow> db" where
  "sql_delete_order orderId d = d\<lparr>orders := filter (\<lambda>od. o_id od \<noteq> orderId) (orders d)\<rparr>"

definition deleteOrder :: "env \<Rightarrow> uuid \<Rightarrow> db \<Rightarrow> order_row response result" where
  "deleteOrder e orderId d =
     (if rejects e Delete_order then \<lparr>nexts = [], ending = Throw DbError, store = d\<rparr>
      else
        let rows = sql_select_order orderId d;
            d' = sql_delete_order orderId d
        in
        case rows of
          [] \<Rightarrow> \<lparr>nexts = [ErrorHandler ''Invalid order ID.'' 404], ending = Returned, store = d'\<rparr>
        | r # rs \<Rightarrow>
            \<lparr>nexts = [],
             ending = Json \<lparr>res_success = True, res_message = ''Order deleted.'', res_data = r\<rparr>,
             store = d'\<rparr>)"

section \<open>The pricing rule in the words of the specification\<close>

text \<open>
  A line is valid against the products when its product is found and its quantity
  is within the stock. The subtotal is the sum over the lines of unit price times
  quantity; shipping is 0 from a subtotal of 50 on and 2 below; the total is
  subtotal plus 18 percent plus shipping, rounded half up: \<open>n\<close> is that rounding
  of \<open>y\<close> when \<open>n - 1/2 \<le> y < n + 1/2\<close>.
\<close>

definition valid_line :: "product_row list \<Rightarrow> cart_line \<Rightarrow> bool" where
  "valid_line ps item =
     (case find (\<lambda>p. p_id p = product_id (product item)) ps of
        None \<Rightarrow> False
      | Some p \<Rightarrow> quantity item \<le> p_stock p)"

definition unit_price :: "product_row list \<Rightarrow> cart_line \<Rightarrow> rat" where
  "unit_price ps item =
     (case find (\<lambda>p. p_id p = product_id (product item)) ps of
        None \<Rightarrow> 0
      | Some p \<Rightarrow> p_price p)"

definition spec_subtotal :: "product_row list \<Rightarrow> cart_line list \<Rightarrow> rat" where
  "spec_subtotal ps items = (\<Sum>item\<leftarrow>items. unit_price ps item * of_int (quantity item))"

definition spec_shipping :: "rat \<Rightarrow> rat" where
  "spec_shipping subtotal = (if subtotal \<ge> 50 then 0 else 2)"

definition is_round_half_up :: "rat \<Rightarrow> int \<Rightarrow> bool" where
  "is_round_half_up y n = (of_int n - 1 / 2 \<le> y \<and> y < of_int n + 1 / 2)"

text \<open>
  The subtotal as the handler computes it: the Numbers price times quantity of the
  lines, added from the left to a sum that starts at 0, every product and every sum
  rounded to binary64.
\<close>

definition js_sum :: "rat \<Rightarrow> product_row list \<Rightarrow> cart_line list \<Rightarrow> rat" where
  "js_sum acc ps items =
     foldl (\<lambda>a item.
              js_add a (js_mul (to_number (unit_price ps item)) (to_number (of_int (quantity item)))))
       acc items"

definition js_subtotal :: "product_row list \<Rightarrow> cart_line list \<Rightarrow> rat" where
  "js_subtotal ps items = js_sum 0 ps items"

text \<open>
  A cart whose amounts are in the finite range of binary64: fewer than \<open>2^20\<close>
  lines, each with a price below \<open>2^900\<close> and a quantity below \<open>2^100\<close> in
  size. Then every product is below \<open>2^1001\<close> and every sum of the handler below
  \<open>2^1023\<close> in size, and no operation gives Infinity.
\<close>

definition finite_cart :: "product_row list \<Rightarrow> cart_line list \<Rightarrow> bool" where
  "finite_cart ps items =
     (int (length items) < 2 ^ 20 \<and>
      list_all (\<lambda>item. \<bar>unit_price ps item\<bar> < 2 ^ 900 \<and> \<bar>quantity item\<bar> < 2 ^ 100) items)"

text \<open>The six values the loop pushes for a line, none when its product is not found.\<close>

definition row_values :: "product_row list \<Rightarrow> cart_line \<Rightarrow> item_values list" where
  "row_values ps item =
     (case find (\<lambda>p. p_id p = product_id (product item)) ps of
        None \<Rightarrow> []
      | Some p \<Rightarrow>
          [\<lparr>v_order_id = None, v_product_id = p_id p, v_quantity = quantity item,
            v_price = p_price p, v_image = first_image_url item, v_title = p_name p\<rparr>])"

section \<open>Example data\<close>

text \<open>
  A store with two products, a request with complete shipping details, and an
  environment in which no statement is rejected. \<open>ex_db_placed\<close> is the store
  after the cart of two lamps has been placed.
\<close>

definition ex_env :: env where
  "ex_env =
     \<lparr>JSON_parse = (\<lambda>v. if v = JStr ''[]'' then Some (JArr []) else if v = JStr ''{}'' then Some (JObj []) else None),
      rejects = (\<lambda>q. False),
      gen_id = (\<lambda>d. ''id'' @ decimal_of_nat (length (orders d) + length (order_items d) + length (shipping_info d))),
      now = 1000\<rparr>"

definition ex_body :: "json option \<Rightarrow> place_body" where
  "ex_body oi =
     \<lparr>full_name = Some (JStr ''Ann Lee''), state = Some (JStr ''Goa''), city = Some (JStr ''Panaji''),
      country = Some (JStr ''India''), address = Some (JStr ''1 Main St''),
      pincode = Some (JNum 403001), phone = Some (JStr ''5550100''), orderedItems = oi\<rparr>"

definition ex_line :: "uuid \<Rightarrow> int \<Rightarrow> cart_line" where
  "ex_line i q = \<lparr>product = \<lparr>product_id = i, images = []\<rparr>, quantity = q\<rparr>"

definition ex_db :: db where
  "ex_db =
     \<lparr>products = [\<lparr>p_id = ''P1'', p_price = 30, p_stock = 5, p_name = ''Lamp''\<rparr>,
                  \<lparr>p_id = ''P2'', p_price = 10, p_stock = 3, p_name = ''Mug''\<rparr>],
      orders = [], order_items = [], shipping_info = [], payments = []\<rparr>"

definition ex_order :: order_row where
  "ex_order = \<lparr>o_id = ''id0'', buyer_id = ''U1'', total_price = 71, tax_price = 18 / 100, shipping_price = 0,
               order_status = JStr ''Processing'', paid_at = Some 1000\<rparr>"

definition ex_db_placed :: db where
  "ex_db_placed =
     \<lparr>products = [\<lparr>p_id = ''P1'', p_price = 30, p_stock = 3, p_name = ''Lamp''\<rparr>,
                  \<lparr>p_id = ''P2'', p_price = 10, p_stock = 3, p_name = ''Mug''\<rparr>],
      orders = [ex_order],
      order_items = [\<lparr>oi_id = ''id1'', oi_order_id = Some ''id0'', oi_product_id = ''P1'', oi_quantity = 2,
                      oi_price = 30, oi_image = [], oi_title = ''Lamp''\<rparr>],
      shipping_info = [\<lparr>s_id = ''id2'', s_order_id = Some ''id0'', s_full_name = Some (JStr ''Ann Lee''),
          s_state = Some (JStr ''Goa''), s_city = Some (JStr ''Panaji''), s_country = Some (JStr ''India''),
          s_address = Some (JStr ''1 Main St''), s_pincode = Some (JNum 403001), s_phone = Some (JStr ''5550100'')\<rparr>],
      payments = [\<lparr>pay_order_id = Some ''id0'', payment_type = ''Online'', payment_status = ''Paid'', payment_intent_id = None\<rparr>]\<rparr>"

text \<open>The environment of the examples, but with the store rejecting one statement.\<close>

definition ex_env_rejecting :: "stmt \<Rightarrow> env" where
  "ex_env_rejecting s = ex_env\<lparr>rejects := (\<lambda>q. q = s)\<rparr>"

text \<open>A store with the last unit of a vase, and a request for it by a buyer.\<close>

definition ex_db_last_unit :: db where
  "ex_db_last_unit =
     \<lparr>products = [\<lparr>p_id = ''P3'', p_price = 40, p_stock = 1, p_name = ''Vase''\<rparr>],
      orders = [], order_items = [], shipping_info = [], payments = []\<rparr>"

definition ex_req_last_unit :: "uuid \<Rightarrow> place_req" where
  "ex_req_last_unit buyer = \<lparr>body = ex_body (Some (JArr [ex_line ''P3'' 1])), user_id = buyer\<rparr>"

text \<open>
  A store whose prices have cents: the price column holds the decimals 0.80 and
  16.40 exactly, and a cart of one pen and three books.
\<close>

definition ex_db_cents :: db where
  "ex_db_cents =
     \<lparr>products = [\<lparr>p_id = ''P4'', p_price = 4 / 5, p_stock = 5, p_name = ''Pen''\<rparr>,
                  \<lparr>p_id = ''P5'', p_price = 82 / 5, p_stock = 5, p_name = ''Book''\<rparr>],
      orders = [], order_items = [], shipping_info = [], payments = []\<rparr>"

definition ex_req_cents :: place_req where
  "ex_req_cents = \<lparr>body = ex_body (Some (JArr [ex_line ''P4'' 1, ex_line ''P5'' 3])), user_id = ''U1''\<rparr>"

section \<open>Properties\<close>

subsection \<open>Lists\<close>

lemma filter_hd_find: "find P xs = Some x \<Longrightarrow> \<exists>rest. filter P xs = x # rest"
  by (induction xs) (auto split: if_splits)

lemma select_after_update:
  "sql_select_order orderId (sql_update_order_status st orderId d) =
   map (\<lambda>od. od\<lparr>order_status := st\<rparr>) (sql_select_order orderId d)"
  unfolding sql_select_order_def sql_update_order_status_def
  by (induction "orders d" arbitrary: d) (auto simp: filter_map comp_def intro!: map_cong filter_cong)

subsection \<open>The run of a valid cart\<close>

lemma find_filter_implied:
  "(\<And>x. P x \<Longrightarrow> Q x) \<Longrightarrow> find P (filter Q xs) = find P xs"
  by (induction xs) auto

lemma find_selected:
  "i \<in> set ids \<Longrightarrow>
   find (\<lambda>p. p_id p = i) (sql_select_products ids d) = find (\<lambda>p. p_id p = i) (products d)"
  unfolding sql_select_products_def by (rule find_filter_implied) simp

lemma valid_line_selected:
  "item \<in> set items \<Longrightarrow>
   valid_line (sql_select_products (map (\<lambda>item. product_id (product item)) items) d) item =
   valid_line (products d) item"
  by (simp add: valid_line_def find_selected)

lemma unit_price_selected:
  "item \<in> set items \<Longrightarrow>
   unit_price (sql_select_products (map (\<lambda>item. product_id (product item)) items) d) item =
   unit_price (products d) item"
  by (simp add: unit_price_def find_selected)

lemma forEach_items_ok:
  "\<forall>item \<in> set items. valid_line ps item \<Longrightarrow>
   forEach_items ps items k st =
     st\<lparr>fe_total_price := js_sum (fe_total_price st) ps items,
        fe_values := fe_values st @ concat (map (row_values ps) items),
        fe_placeholders := fe_placeholders st @ map (\<lambda>j. (k + j) * 6) [0..<length items]\<rparr>"
proof (induction items arbitrary: k st)
  case Nil
  then show ?case by (simp add: js_sum_def)
next
  case (Cons item items)
  from Cons.prems obtain p where
    p: "find (\<lambda>p. p_id p = product_id (product item)) ps = Some p" "quantity item \<le> p_stock p"
    by (auto simp: valid_line_def split: option.splits)
  have cb: "forEach_callback ps item k st =
     st\<lparr>fe_total_price :=
          js_add (fe_total_price st)
            (js_mul (to_number (unit_price ps item)) (to_number (of_int (quantity item)))),
        fe_values := fe_values st @ row_values ps item,
        fe_placeholders := fe_placeholders st @ [k * 6]\<rparr>"
    using p by (simp add: forEach_callback_def unit_price_def row_values_def)
  have rest: "\<forall>item \<in> set items. valid_line ps item"
    using Cons.prems by simp
  have up: "map (\<lambda>j. (k + j) * 6) [0..<length (item # items)] =
            k * 6 # map (\<lambda>j. (Suc k + j) * 6) [0..<length items]"
    by (simp add: map_upt_Suc del: upt_Suc)
  have sub: "js_sum a ps (item # items) =
             js_sum (js_add a (js_mul (to_number (unit_price ps item))
                                 (to_number (of_int (quantity item))))) ps items" for a
    by (simp add: js_sum_def)
  show ?case
    unfolding forEach_items.simps cb Cons.IH[OF rest] up sub
    by simp
qed

lemma js_sum_selected:
  "\<forall>item \<in> set items. unit_price ps item = unit_price ps' item \<Longrightarrow>
   js_sum a ps items = js_sum a ps' items"
  by (induction items arbitrary: a) (simp_all add: js_sum_def)

lemma row_values_ok: "valid_line ps item \<Longrightarrow> length (row_values ps item) = 1"
  by (auto simp: valid_line_def row_values_def split: option.splits)

lemma length_concat_values:
  "\<forall>item \<in> set items. valid_line ps item \<Longrightarrow> length (concat (map (row_values ps) items)) = length items"
  by (induction items) (auto simp: row_values_ok)

lemma reduce_stock_no_reject:
  "\<forall>q. \<not> rejects e q \<Longrightarrow>
   reduce_stock e items k d =
     (None, fold (\<lambda>item. sql_update_stock (quantity item) (product_id (product item))) items d)"
  by (induction items arbitrary: k d) auto

lemma products_insert_items [simp]:
  "products (sql_insert_order_items e vals d) = products d"
  unfolding sql_insert_order_items_def
  by (induction vals arbitrary: d) (auto simp: insert_item_row_def)

lemma orders_insert_items [simp]:
  "orders (sql_insert_order_items e vals d) = orders d"
  unfolding sql_insert_order_items_def
  by (induction vals arbitrary: d) (auto simp: insert_item_row_def)

lemma orders_fold_update_stock [simp]:
  "orders (fold (\<lambda>item. sql_update_stock (quantity item) (product_id (product item))) items d) = orders d"
  by (induction items arbitrary: d) (auto simp: sql_update_stock_def)

lemma place_items_ok:
  assumes ok: "\<forall>item \<in> set items. valid_line (products d) item"
    and ne: "items \<noteq> []"
    and nr: "\<forall>q. \<not> rejects e q"
  shows "place_items e req items d =
     (let subtotal = js_subtotal (products d) items;
          ord = new_order e (user_id req) (total_price_of subtotal) tax_price_const
                  (shipping_price_of subtotal) d;
          ps = sql_select_products (map (\<lambda>item. product_id (product item)) items) d
      in
      \<lparr>nexts = [],
       ending = Json \<lparr>r_success = True, r_message = ''Order placed successfully.'',
                      r_order = ord, r_total_price = total_price_of subtotal\<rparr>,
       store = fold (\<lambda>item. sql_update_stock (quantity item) (product_id (product item))) items
                 (sql_insert_payment (o_id ord)
                   (sql_insert_shipping_info e (o_id ord) (body req)
                     (sql_insert_order_items e
                        (map (\<lambda>v. v\<lparr>v_order_id := Some (o_id ord)\<rparr>)
                           (concat (map (row_values ps) items)))
                        (sql_insert_order ord d))))\<rparr>)"
proof -
  let ?ps = "sql_select_products (map (\<lambda>item. product_id (product item)) items) d"
  have ok': "\<forall>item \<in> set items. valid_line ?ps item"
    using ok by (simp add: valid_line_selected)
  have sub: "js_sum 0 ?ps items = js_subtotal (products d) items"
    unfolding js_subtotal_def
    by (rule js_sum_selected) (simp add: unit_price_selected)
  have binds: "statement_binds (map (\<lambda>j. (0 + j) * 6) [0..<length items])
                 (map f (concat (map (row_values ?ps) items)))" for f
    using ne by (simp add: statement_binds_def length_concat_values[OF ok'])
  show ?thesis
    using nr binds
    by (simp add: place_items_def forEach_items_ok[OF ok'] sub reduce_stock_no_reject[OF nr] Let_def)
qed

subsection \<open>updateOrderStatus\<close>

text \<open>
  C7. \<open>updateOrderStatus\<close> hands a 400 error to \<open>next\<close> when the new status is
  missing or empty, and a 404 error when no order has the identifier. Otherwise it
  sets the status of the order and nothing else: the other tables are as they were,
  every order row with another identifier is as it was, a row with the identifier
  differs from the old one in its status only, and the response carries the updated
  order.
\<close>

theorem updateOrderStatus_sets_status_only:
  "(falsy status \<longrightarrow>
      updateOrderStatus e status orderId d =
        \<lparr>nexts = [ErrorHandler ''Provide a valid status for order.'' 400],
         ending = Returned, store = d\<rparr>) \<and>
   (\<not> falsy status \<and> \<not> rejects e Select_order \<and> (\<forall>od \<in> set (orders d). o_id od \<noteq> orderId) \<longrightarrow>
      updateOrderStatus e status orderId d =
        \<lparr>nexts = [ErrorHandler ''Invalid order ID.'' 404], ending = Returned, store = d\<rparr>) \<and>
   (status = Some st \<and> truthy st \<and> \<not> rejects e Select_order \<and> \<not> rejects e Update_order_status \<and>
    find (\<lambda>od. o_id od = orderId) (orders d) = Some old \<longrightarrow>
      nexts (updateOrderStatus e status orderId d) = [] \<and>
      ending (updateOrderStatus e status orderId d) =
        Json \<lparr>res_success = True, res_message = ''Order status updated.'',
              res_data = Some (old\<lparr>order_status := st\<rparr>)\<rparr> \<and>
      products (store (updateOrderStatus e status orderId d)) = products d \<and>
      order_items (store (updateOrderStatus e status orderId d)) = order_items d \<and>
      shipping_info (store (updateOrderStatus e status orderId d)) = shipping_info d \<and>
      payments (store (updateOrderStatus e status orderId d)) = payments d \<and>
      length (orders (store (updateOrderStatus e status orderId d))) = length (orders d) \<and>
      (\<forall>i < length (orders d).
         orders (store (updateOrderStatus e status orderId d)) ! i =
           (if o_id (orders d ! i) = orderId then (orders d ! i)\<lparr>order_status := st\<rparr>
            else orders d ! i)))"
proof (intro conjI impI)
  assume "falsy status"
  then show "updateOrderStatus e status orderId d =
        \<lparr>nexts = [ErrorHandler ''Provide a valid status for order.'' 400],
         ending = Returned, store = d\<rparr>"
    by (auto simp: updateOrderStatus_def falsy_def split: option.splits)
next
  assume a: "\<not> falsy status \<and> \<not> rejects e Select_order \<and> (\<forall>od \<in> set (orders d). o_id od \<noteq> orderId)"
  then have "sql_select_order orderId d = []"
    by (auto simp: sql_select_order_def filter_empty_conv)
  with a show "updateOrderStatus e status orderId d =
        \<lparr>nexts = [ErrorHandler ''Invalid order ID.'' 404], ending = Returned, store = d\<rparr>"
    by (auto simp: updateOrderStatus_def falsy_def split: option.splits)
next
  assume a: "status = Some st \<and> truthy st \<and> \<not> rejects e Select_order \<and> \<not> rejects e Update_order_status \<and>
    find (\<lambda>od. o_id od = orderId) (orders d) = Some old"
  then obtain rest where sel: "sql_select_order orderId d = old # rest"
    using filter_hd_find[of "\<lambda>od. o_id od = orderId" "orders d" old]
    by (auto simp: sql_select_order_def)
  have run: "updateOrderStatus e status orderId d =
     \<lparr>nexts = [],
      ending = Json \<lparr>res_success = True, res_message = ''Order status updated.'',
                     res_data = Some (old\<lparr>order_status := st\<rparr>)\<rparr>,
      store = sql_update_order_status st orderId d\<rparr>"
    using a sel by (simp add: updateOrderStatus_def falsy_def select_after_update Let_def)
  show "nexts (updateOrderStatus e status orderId d) = []" by (simp add: run)
  show "ending (updateOrderStatus e status orderId d) =
        Json \<lparr>res_success = True, res_message = ''Order status updated.'',
              res_data = Some (old\<lparr>order_status := st\<rparr>)\<rparr>" by (simp add: run)
  show "products (store (updateOrderStatus e status orderId d)) = products d"
    by (simp add: run sql_update_order_status_def)
  show "order_items (store (updateOrderStatus e status orderId d)) = order_items d"
    by (simp add: run sql_update_order_status_def)
  show "shipping_info (store (updateOrderStatus e status orderId d)) = shipping_info d"
    by (simp add: run sql_update_order_status_def)
  show "payments (store (updateOrderStatus e status orderId d)) = payments d"
    by (simp add: run sql_update_order_status_def)
  show "length (orders (store (updateOrderStatus e status orderId d))) = length (orders d)"
    by (simp add: run sql_update_order_status_def)
  show "\<forall>i < length (orders d).
         orders (store (updateOrderStatus e status orderId d)) ! i =
           (if o_id (orders d ! i) = orderId then (orders d ! i)\<lparr>order_status := st\<rparr>
            else orders d ! i)"
    by (simp add: run sql_update_order_status_def)
qed

theorem updateOrderStatus_sets_status_only_witness:
  "falsy None \<and>
   updateOrderStatus ex_env None ''id0'' ex_db_placed =
     \<lparr>nexts = [ErrorHandler ''Provide a valid status for order.'' 400], ending = Returned,
      store = ex_db_placed\<rparr> \<and>
   updateOrderStatus ex_env (Some (JStr ''Shipped'')) ''id7'' ex_db_placed =
     \<lparr>nexts = [ErrorHandler ''Invalid order ID.'' 404], ending = Returned, store = ex_db_placed\<rparr> \<and>
   find (\<lambda>od. o_id od = ''id0'') (orders ex_db_placed) = Some ex_order \<and>
   ending (updateOrderStatus ex_env (Some (JStr ''Shipped'')) ''id0'' ex_db_placed) =
     Json \<lparr>res_success = True, res_message = ''Order status updated.'',
           res_data = Some (ex_order\<lparr>order_status := JStr ''Shipped''\<rparr>)\<rparr> \<and>
   orders (store (updateOrderStatus ex_env (Some (JStr ''Shipped'')) ''id0'' ex_db_placed)) =
     [ex_order\<lparr>order_status := JStr ''Shipped''\<rparr>] \<and>
   order_items (store (updateOrderStatus ex_env (Some (JStr ''Shipped'')) ''id0'' ex_db_placed)) =
     order_items ex_db_placed"
proof -
  have h1: "falsy None" by (simp add: falsy_def)
  have h2: "\<not> falsy (Some (JStr ''Shipped'')) \<and> \<not> rejects ex_env Select_order \<and>
            (\<forall>od \<in> set (orders ex_db_placed). o_id od \<noteq> ''id7'')"
    by (simp add: falsy_def ex_env_def ex_db_placed_def ex_order_def)
  have h3: "Some (JStr ''Shipped'') = Some (JStr ''Shipped'') \<and> truthy (JStr ''Shipped'') \<and>
            \<not> rejects ex_env Select_order \<and> \<not> rejects ex_env Update_order_status \<and>
            find (\<lambda>od. o_id od = ''id0'') (orders ex_db_placed) = Some ex_order"
    by (simp add: ex_env_def ex_db_placed_def ex_order_def)
  have len: "length (orders ex_db_placed) = 1" by (simp add: ex_db_placed_def)
  note t1 = updateOrderStatus_sets_status_only[where status = None and e = ex_env and orderId = "''id0''" and d = ex_db_placed, THEN conjunct1, rule_format, OF h1]
  note t2 = updateOrderStatus_sets_status_only[where status = "Some (JStr ''Shipped'')" and e = ex_env and orderId = "''id7''" and d = ex_db_placed,
     THEN conjunct2, THEN conjunct1, rule_format, OF h2]
  note t3 = updateOrderStatus_sets_status_only[where status = "Some (JStr ''Shipped'')" and st = "JStr ''Shipped''" and e = ex_env and orderId = "''id0''" and d = ex_db_placed and old = ex_order,
     THEN conjunct2, THEN conjunct2, rule_format, OF h3]
  from t3 have all: "\<forall>i < length (orders ex_db_placed).
         orders (store (updateOrderStatus ex_env (Some (JStr ''Shipped'')) ''id0'' ex_db_placed)) ! i =
           (if o_id (orders ex_db_placed ! i) = ''id0''
            then (orders ex_db_placed ! i)\<lparr>order_status := JStr ''Shipped''\<rparr>
            else orders ex_db_placed ! i)"
    by (elim conjE)
  have "orders (store (updateOrderStatus ex_env (Some (JStr ''Shipped'')) ''id0'' ex_db_placed)) ! 0 =
     ex_order\<lparr>order_status := JStr ''Shipped''\<rparr>"
    using all[rule_format, of 0] by (simp add: ex_db_placed_def ex_order_def)
  moreover have "length (orders (store (updateOrderStatus ex_env (Some (JStr ''Shipped'')) ''id0'' ex_db_placed))) = 1"
    using t3 len by simp
  ultimately have o: "orders (store (updateOrderStatus ex_env (Some (JStr ''Shipped'')) ''id0'' ex_db_placed)) =
     [ex_order\<lparr>order_status := JStr ''Shipped''\<rparr>]"
    by (cases "orders (store (updateOrderStatus ex_env (Some (JStr ''Shipped'')) ''id0'' ex_db_placed))") auto
  show ?thesis using h1 h3 t1 t2 t3 o by simp
qed

subsection \<open>The total price\<close>

lemma placeNewOrder_array:
  assumes "\<not> shipping_missing (body req)"
    and "orderedItems (body req) = Some (JArr items)"
    and "items \<noteq> []"
  shows "placeNewOrder e req d = place_items e req items d"
  using assms by (simp add: placeNewOrder_def parse_items_def falsy_def Let_def)

lemma Math_round_half_up: "\<exists>n. Math_round y = of_int n \<and> is_round_half_up y n"
proof -
  have "is_round_half_up y \<lfloor>y + 1 / 2\<rfloor>"
    unfolding is_round_half_up_def by linarith
  then show ?thesis unfolding Math_round_def by blast
qed

text \<open>
  The rounding to binary64 on known values: 0.1 and 0.18 are not binary64 numbers,
  small integers are, an integer above \<open>2 ^ 53\<close> goes to the nearest even
  neighbour, and 0.1 + 0.2 is not 0.3.
\<close>

lemma binary64_examples:
  "binary64 (1 / 10) = 3602879701896397 / 36028797018963968 \<and>
   binary64 (18 / 100) = 3242591731706757 / 18014398509481984 \<and>
   binary64 3 = 3 \<and>
   binary64 (2 ^ 53 + 1) = 2 ^ 53 \<and>
   binary64 (2 ^ 53 + 3) = 2 ^ 53 + 4 \<and>
   js_add (1 / 10) (1 / 5) \<noteq> 3 / 10"
  by code_simp

text \<open>
  Two ties that binary64 keeps: from a subtotal of 25 the handler's sum is 31.5 and
  from 75 it is 88.5, both exactly, and \<open>Math.round\<close> takes them up.
\<close>

lemma total_price_of_tie:
  "total_price_of 25 = 32 \<and> total_price_of 75 = 89"
  by code_simp

text \<open>
  C3, as amended. For a valid cart (complete shipping details, every line's product
  found and its quantity within the stock) whose amounts are in the finite range of
  binary64, and a store that rejects no statement, the total of the response and of the order row is the round-half-up of the
  binary64 number that the handler computes: the subtotal is the sum, from 0 and line
  after line in the order of the cart, of unit price times quantity, each product and
  each sum rounded to binary64; shipping is 0 when that subtotal is at least 50 and 2
  otherwise; the number rounded is subtotal plus subtotal times 0.18 plus shipping,
  again with each operation rounded to binary64. The order row holds the tax rate
  0.18 and that shipping.
\<close>

theorem total_price_binary64:
  assumes "\<not> shipping_missing (body req)"
    and "orderedItems (body req) = Some (JArr items)"
    and "items \<noteq> []"
    and "\<forall>item \<in> set items. valid_line (products d) item"
    and "\<forall>q. \<not> rejects e q"
    and "finite_cart (products d) items"
  shows "\<exists>ord n.
     ending (placeNewOrder e req d) =
       Json \<lparr>r_success = True, r_message = ''Order placed successfully.'',
             r_order = ord, r_total_price = of_int n\<rparr> \<and>
     ord \<in> set (orders (store (placeNewOrder e req d))) \<and>
     total_price ord = of_int n \<and>
     tax_price ord = 18 / 100 \<and>
     shipping_price ord = spec_shipping (js_subtotal (products d) items) \<and>
     is_round_half_up
       (js_add
          (js_add (js_subtotal (products d) items)
             (js_mul (js_subtotal (products d) items) (to_number (18 / 100))))
          (spec_shipping (js_subtotal (products d) items))) n"
proof -
  let ?sub = "js_subtotal (products d) items"
  let ?v = "js_add (js_add ?sub (js_mul ?sub (to_number (18 / 100)))) (spec_shipping ?sub)"
  obtain n where n: "Math_round ?v = of_int n" "is_round_half_up ?v n"
    using Math_round_half_up by blast
  have tot: "total_price_of ?sub = of_int n"
    using n(1) by (simp add: total_price_of_def tax_price_const_def shipping_price_of_def spec_shipping_def)
  let ?ord = "new_order e (user_id req) (total_price_of ?sub) tax_price_const (shipping_price_of ?sub) d"
  have run: "placeNewOrder e req d = place_items e req items d"
    using assms(1-3) by (rule placeNewOrder_array)
  have "ending (placeNewOrder e req d) =
       Json \<lparr>r_success = True, r_message = ''Order placed successfully.'',
             r_order = ?ord, r_total_price = of_int n\<rparr>"
    unfolding run place_items_ok[OF assms(4) assms(3) assms(5)] by (simp add: Let_def tot)
  moreover have "?ord \<in> set (orders (store (placeNewOrder e req d)))"
    unfolding run place_items_ok[OF assms(4) assms(3) assms(5)] by (simp add: Let_def sql_insert_payment_def sql_insert_shipping_info_def sql_insert_order_def)
  moreover have "total_price ?ord = of_int n" "tax_price ?ord = 18 / 100"
    "shipping_price ?ord = spec_shipping ?sub"
    by (simp_all add: new_order_def tot tax_price_const_def shipping_price_of_def spec_shipping_def)
  ultimately show ?thesis using n(2) by blast
qed

theorem total_price_binary64_witness:
  "\<not> shipping_missing (body \<lparr>body = ex_body (Some (JArr [ex_line ''P1'' 2])), user_id = ''U1''\<rparr>) \<and>
   [ex_line ''P1'' 2] \<noteq> [] \<and>
   valid_line (products ex_db) (ex_line ''P1'' 2) \<and>
   finite_cart (products ex_db) [ex_line ''P1'' 2] \<and>
   js_subtotal (products ex_db) [ex_line ''P1'' 2] = 60 \<and>
   (\<exists>ord. ending (placeNewOrder ex_env
                \<lparr>body = ex_body (Some (JArr [ex_line ''P1'' 2])), user_id = ''U1''\<rparr> ex_db) =
            Json \<lparr>r_success = True, r_message = ''Order placed successfully.'',
                  r_order = ord, r_total_price = 71\<rparr> \<and>
          total_price ord = 71 \<and> shipping_price ord = 0)"
proof -
  let ?req = "\<lparr>body = ex_body (Some (JArr [ex_line ''P1'' 2])), user_id = ''U1''\<rparr>"
  have h1: "\<not> shipping_missing (body ?req)"
    by (simp add: shipping_missing_def falsy_def ex_body_def)
  have h2: "orderedItems (body ?req) = Some (JArr [ex_line ''P1'' 2])"
    by (simp add: ex_body_def)
  have h3: "[ex_line ''P1'' 2] \<noteq> []" by simp
  have v: "valid_line (products ex_db) (ex_line ''P1'' 2)"
    by (simp add: valid_line_def ex_db_def ex_line_def)
  then have h4: "\<forall>item \<in> set [ex_line ''P1'' 2]. valid_line (products ex_db) item" by simp
  have h5: "\<forall>q. \<not> rejects ex_env q" by (simp add: ex_env_def)
  have h6: "finite_cart (products ex_db) [ex_line ''P1'' 2]"
    by code_simp
  have sub: "js_subtotal (products ex_db) [ex_line ''P1'' 2] = 60"
    by code_simp
  have val: "js_add (js_add 60 (js_mul 60 (to_number (18 / 100)))) 0 =
     4982107087778611 / 70368744177664"
    by code_simp
  from total_price_binary64[OF h1 h2 h3 h4 h5 h6] obtain ord n where r:
    "ending (placeNewOrder ex_env ?req ex_db) =
       Json \<lparr>r_success = True, r_message = ''Order placed successfully.'',
             r_order = ord, r_total_price = of_int n\<rparr>"
    "total_price ord = of_int n"
    "shipping_price ord = spec_shipping (js_subtotal (products ex_db) [ex_line ''P1'' 2])"
    "is_round_half_up
       (js_add
          (js_add (js_subtotal (products ex_db) [ex_line ''P1'' 2])
             (js_mul (js_subtotal (products ex_db) [ex_line ''P1'' 2]) (to_number (18 / 100))))
          (spec_shipping (js_subtotal (products ex_db) [ex_line ''P1'' 2]))) n"
    by blast
  have sh: "spec_shipping 60 = 0" by (simp add: spec_shipping_def)
  have "n = 71"
    using r(4) unfolding sub sh val is_round_half_up_def by simp
  with r(1-3) sub sh have "ending (placeNewOrder ex_env ?req ex_db) =
            Json \<lparr>r_success = True, r_message = ''Order placed successfully.'',
                  r_order = ord, r_total_price = 71\<rparr> \<and>
          total_price ord = 71 \<and> shipping_price ord = 0"
    by simp
  then show ?thesis using h1 h3 v h6 sub by blast
qed

text \<open>
  The formula over the exact decimals can give another total. A pen at 0.80 and three
  books at 16.40 cost exactly 50.00, so shipping would be 0 and the total 59; the
  handler gets the subtotal 49.99999999999999, charges 2 for shipping and answers 61.
\<close>

theorem exact_total_counterexample:
  "\<not> shipping_missing (body ex_req_cents) \<and>
   orderedItems (body ex_req_cents) = Some (JArr [ex_line ''P4'' 1, ex_line ''P5'' 3]) \<and>
   valid_line (products ex_db_cents) (ex_line ''P4'' 1) \<and>
   valid_line (products ex_db_cents) (ex_line ''P5'' 3) \<and>
   finite_cart (products ex_db_cents) [ex_line ''P4'' 1, ex_line ''P5'' 3] \<and>
   spec_subtotal (products ex_db_cents) [ex_line ''P4'' 1, ex_line ''P5'' 3] = 50 \<and>
   spec_shipping 50 = 0 \<and>
   is_round_half_up (50 + 50 * (18 / 100) + 0) 59 \<and>
   js_subtotal (products ex_db_cents) [ex_line ''P4'' 1, ex_line ''P5'' 3] =
     7036874417766399 / 140737488355328 \<and>
   nexts (placeNewOrder ex_env ex_req_cents ex_db_cents) = [] \<and>
   ending (placeNewOrder ex_env ex_req_cents ex_db_cents) =
     Json \<lparr>r_success = True, r_message = ''Order placed successfully.'',
        r_order = \<lparr>o_id = ''id0'', buyer_id = ''U1'', total_price = 61, tax_price = 18 / 100,
                    shipping_price = 2, order_status = JStr ''Processing'', paid_at = Some 1000\<rparr>,
        r_total_price = 61\<rparr> \<and>
   orders (store (placeNewOrder ex_env ex_req_cents ex_db_cents)) =
     [\<lparr>o_id = ''id0'', buyer_id = ''U1'', total_price = 61, tax_price = 18 / 100,
       shipping_price = 2, order_status = JStr ''Processing'', paid_at = Some 1000\<rparr>]"
  by code_simp

subsection \<open>The stock\<close>

lemma products_update_stock:
  "products (sql_update_stock q pid d) =
   map (\<lambda>p. if p_id p = pid then p\<lparr>p_stock := p_stock p - q\<rparr> else p) (products d)"
  by (simp add: sql_update_stock_def)

lemma products_inserts [simp]:
  "products (sql_insert_order ord d) = products d"
  "products (sql_insert_shipping_info e i b d) = products d"
  "products (sql_insert_payment i d) = products d"
  by (simp_all add: sql_insert_order_def sql_insert_shipping_info_def sql_insert_payment_def)

lemma find_map_same_id:
  "(\<And>x. p_id (f x) = p_id x) \<Longrightarrow>
   find (\<lambda>x. p_id x = pid) (map f xs) = map_option f (find (\<lambda>x. p_id x = pid) xs)"
  by (induction xs) auto

lemma find_unique_row:
  "find (\<lambda>x. p_id x = pid) xs = Some p \<Longrightarrow> distinct (map p_id xs) \<Longrightarrow>
   x \<in> set xs \<Longrightarrow> p_id x = pid \<Longrightarrow> x = p"
  by (induction xs) (auto split: if_splits simp: rev_image_eqI)

text \<open>
  C10. A cart with two lines for the same product, each within the stock and
  together beyond it: every line passes the check against the same fetched stock,
  no error is handed to \<open>next\<close>, the order is placed, and the stock of the product is
  decremented by both quantities, which leaves it negative (when the store rejects
  no statement).
\<close>

theorem duplicate_lines_oversell:
  assumes "\<not> shipping_missing (body req)"
    and "orderedItems (body req) = Some (JArr [l1, l2])"
    and "product_id (product l1) = pid" and "product_id (product l2) = pid"
    and "find (\<lambda>x. p_id x = pid) (products d) = Some p"
    and "quantity l1 \<le> p_stock p" and "quantity l2 \<le> p_stock p"
    and "p_stock p < quantity l1 + quantity l2"
    and "\<forall>q. \<not> rejects e q"
  shows "nexts (placeNewOrder e req d) = [] \<and>
     (\<exists>resp. ending (placeNewOrder e req d) = Json resp) \<and>
     products (store (placeNewOrder e req d)) =
       map (\<lambda>x. if p_id x = pid then x\<lparr>p_stock := p_stock x - (quantity l1 + quantity l2)\<rparr> else x)
         (products d) \<and>
     find (\<lambda>x. p_id x = pid) (products (store (placeNewOrder e req d))) =
       Some (p\<lparr>p_stock := p_stock p - (quantity l1 + quantity l2)\<rparr>) \<and>
     p_stock p - (quantity l1 + quantity l2) < 0"
proof -
  have ok: "\<forall>item \<in> set [l1, l2]. valid_line (products d) item"
    using assms(3-7) by (simp add: valid_line_def)
  have run: "placeNewOrder e req d = place_items e req [l1, l2] d"
    using assms(1,2) by (simp add: placeNewOrder_array)
  note r = place_items_ok[OF ok _ assms(9), of req, simplified Let_def]
  have n: "nexts (placeNewOrder e req d) = []"
    unfolding run by (subst r) simp_all
  have j: "\<exists>resp. ending (placeNewOrder e req d) = Json resp"
    unfolding run by (subst r) simp_all
  have pr: "products (store (placeNewOrder e req d)) =
       map (\<lambda>x. if p_id x = pid then x\<lparr>p_stock := p_stock x - (quantity l1 + quantity l2)\<rparr> else x)
         (products d)"
    unfolding run by (subst r) (auto simp: products_update_stock assms(3,4))
  have f: "find (\<lambda>x. p_id x = pid) (products (store (placeNewOrder e req d))) =
       Some (p\<lparr>p_stock := p_stock p - (quantity l1 + quantity l2)\<rparr>)"
    using assms(5) unfolding pr
    by (subst find_map_same_id) (auto simp: find_Some_iff)
  show ?thesis using n j pr f assms(8) by simp
qed

theorem duplicate_lines_oversell_witness:
  "\<not> shipping_missing (body \<lparr>body = ex_body (Some (JArr [ex_line ''P2'' 2, ex_line ''P2'' 2])), user_id = ''U1''\<rparr>) \<and>
   find (\<lambda>x. p_id x = ''P2'') (products ex_db) =
     Some \<lparr>p_id = ''P2'', p_price = 10, p_stock = 3, p_name = ''Mug''\<rparr> \<and>
   nexts (placeNewOrder ex_env
     \<lparr>body = ex_body (Some (JArr [ex_line ''P2'' 2, ex_line ''P2'' 2])), user_id = ''U1''\<rparr> ex_db) = [] \<and>
   find (\<lambda>x. p_id x = ''P2'') (products (store (placeNewOrder ex_env
     \<lparr>body = ex_body (Some (JArr [ex_line ''P2'' 2, ex_line ''P2'' 2])), user_id = ''U1''\<rparr> ex_db))) =
     Some \<lparr>p_id = ''P2'', p_price = 10, p_stock = - 1, p_name = ''Mug''\<rparr>"
proof -
  let ?req = "\<lparr>body = ex_body (Some (JArr [ex_line ''P2'' 2, ex_line ''P2'' 2])), user_id = ''U1''\<rparr>"
  let ?p = "\<lparr>p_id = ''P2'', p_price = 10, p_stock = 3, p_name = ''Mug''\<rparr>"
  have h1: "\<not> shipping_missing (body ?req)"
    by (simp add: shipping_missing_def falsy_def ex_body_def)
  have h2: "orderedItems (body ?req) = Some (JArr [ex_line ''P2'' 2, ex_line ''P2'' 2])"
    by (simp add: ex_body_def)
  have h3: "product_id (product (ex_line ''P2'' 2)) = ''P2''" by (simp add: ex_line_def)
  have h5: "find (\<lambda>x. p_id x = ''P2'') (products ex_db) = Some ?p" by (simp add: ex_db_def)
  have h6: "quantity (ex_line ''P2'' 2) \<le> p_stock ?p" by (simp add: ex_line_def)
  have h8: "p_stock ?p < quantity (ex_line ''P2'' 2) + quantity (ex_line ''P2'' 2)"
    by (simp add: ex_line_def)
  have h9: "\<forall>q. \<not> rejects ex_env q" by (simp add: ex_env_def)
  have q: "quantity (ex_line ''P2'' 2) = 2" by (simp add: ex_line_def)
  note t = duplicate_lines_oversell[OF h1 h2 h3 h3 h5 h6 h6 h8 h9]
  have n: "nexts (placeNewOrder ex_env ?req ex_db) = []"
    using t by (elim conjE)
  have f: "find (\<lambda>x. p_id x = ''P2'') (products (store (placeNewOrder ex_env ?req ex_db))) =
     Some \<lparr>p_id = ''P2'', p_price = 10, p_stock = - 1, p_name = ''Mug''\<rparr>"
    using t[THEN conjunct2, THEN conjunct2, THEN conjunct2, THEN conjunct1] q by simp
  show ?thesis using h1 h5 n f by simp
qed

lemma reduce_stock_nonneg:
  assumes "\<forall>p \<in> set (products d). 0 \<le> p_stock p"
    and "\<forall>item \<in> set items. \<forall>p \<in> set (products d).
           p_id p = product_id (product item) \<longrightarrow> quantity item \<le> p_stock p"
    and "distinct (map (\<lambda>item. product_id (product item)) items)"
  shows "\<forall>p \<in> set (products (snd (reduce_stock e items k d))). 0 \<le> p_stock p"
  using assms
proof (induction items arbitrary: k d)
  case Nil
  then show ?case by simp
next
  case (Cons item items)
  show ?case
  proof (cases "rejects e (Update_stock k)")
    case True
    then show ?thesis using Cons.prems(1) by simp
  next
    case False
    let ?d = "sql_update_stock (quantity item) (product_id (product item)) d"
    have 1: "\<forall>p \<in> set (products ?d). 0 \<le> p_stock p"
      using Cons.prems(1,2) by (auto simp: products_update_stock)
    have 2: "\<forall>it \<in> set items. \<forall>p \<in> set (products ?d).
           p_id p = product_id (product it) \<longrightarrow> quantity it \<le> p_stock p"
      using Cons.prems(2,3) by (auto simp: products_update_stock)
    have 3: "distinct (map (\<lambda>item. product_id (product item)) items)"
      using Cons.prems(3) by simp
    from Cons.IH[OF 1 2 3] False show ?thesis by simp
  qed
qed

lemma fold_update_stock_distinct:
  "distinct (map (\<lambda>item. product_id (product item)) items) \<Longrightarrow>
   products (fold (\<lambda>item. sql_update_stock (quantity item) (product_id (product item))) items d) =
   map (\<lambda>p. case find (\<lambda>item. product_id (product item) = p_id p) items of
              None \<Rightarrow> p
            | Some item \<Rightarrow> p\<lparr>p_stock := p_stock p - quantity item\<rparr>) (products d)"
proof (induction items arbitrary: d)
  case Nil
  then show ?case by simp
next
  case (Cons item items)
  have nf: "find (\<lambda>it. product_id (product it) = product_id (product item)) items = None"
    using Cons.prems by (auto simp: find_None_iff image_iff)
  have "distinct (map (\<lambda>item. product_id (product item)) items)"
    using Cons.prems by simp
  from Cons.IH[OF this] show ?case
    by (auto simp: products_update_stock nf)
qed

lemma reduce_stock_products_cong:
  "products d1 = products d2 \<Longrightarrow>
   products (snd (reduce_stock e items k d1)) = products (snd (reduce_stock e items k d2))"
  by (induction items arbitrary: k d1 d2) (simp_all add: products_update_stock)

lemma place_items_products:
  "products (store (place_items e req items d)) = products d \<or>
   products (store (place_items e req items d)) = products (snd (reduce_stock e items 0 d))"
proof -
  define st where "st = forEach_items
     (sql_select_products (map (\<lambda>item. product_id (product item)) items) d) items 0
     \<lparr>fe_total_price = 0, fe_values = [], fe_placeholders = [], fe_nexts = []\<rparr>"
  define ord where "ord = new_order e (user_id req) (total_price_of (fe_total_price st))
     tax_price_const (shipping_price_of (fe_total_price st)) d"
  define d4 where "d4 = sql_insert_payment (o_id ord)
     (sql_insert_shipping_info e (o_id ord) (body req)
       (sql_insert_order_items e (map (\<lambda>v. v\<lparr>v_order_id := Some (o_id ord)\<rparr>) (fe_values st))
         (sql_insert_order ord d)))"
  have p4: "products d4 = products d" by (simp add: d4_def)
  have "products (store (place_items e req items d)) = products d \<or>
        store (place_items e req items d) = snd (reduce_stock e items 0 d4)"
    unfolding place_items_def Let_def d4_def ord_def st_def
    by (auto split: prod.splits option.splits)
  then show ?thesis using reduce_stock_products_cong[OF p4] by auto
qed

lemma placeNewOrder_array_store:
  assumes "orderedItems (body req) = Some (JArr items)"
  shows "store (placeNewOrder e req d) = d \<or>
         store (placeNewOrder e req d) = store (place_items e req items d)"
  using assms by (auto simp: placeNewOrder_def parse_items_def Let_def)

text \<open>
  C2, as amended. The decrement of step 9 is the unconditional update
  \<open>stock = stock - quantity\<close>, one a line, with no check and no StockError of its
  own. The stock stays non-negative across a placement when the product
  identifiers of the table are distinct, the stocks are non-negative before, every
  line of the cart is valid and no two lines name the same product; and then, when
  the store rejects no statement, no error reaches \<open>next\<close> and the stock of each
  product is the old one less the quantity of its line.
\<close>

theorem stock_stays_nonnegative:
  assumes "orderedItems (body req) = Some (JArr items)"
    and "\<forall>item \<in> set items. valid_line (products d) item"
    and "distinct (map (\<lambda>item. product_id (product item)) items)"
    and "distinct (map p_id (products d))"
    and "\<forall>p \<in> set (products d). 0 \<le> p_stock p"
  shows "(\<forall>p \<in> set (products (store (placeNewOrder e req d))). 0 \<le> p_stock p) \<and>
     (\<not> shipping_missing (body req) \<and> items \<noteq> [] \<and> (\<forall>q. \<not> rejects e q) \<longrightarrow>
        nexts (placeNewOrder e req d) = [] \<and>
        products (store (placeNewOrder e req d)) =
          map (\<lambda>p. case find (\<lambda>item. product_id (product item) = p_id p) items of
                     None \<Rightarrow> p
                   | Some item \<Rightarrow> p\<lparr>p_stock := p_stock p - quantity item\<rparr>) (products d))"
proof (intro conjI impI)
  have enough: "\<forall>item \<in> set items. \<forall>p \<in> set (products d).
           p_id p = product_id (product item) \<longrightarrow> quantity item \<le> p_stock p"
  proof (intro ballI impI)
    fix item p
    assume item: "item \<in> set items" and p: "p \<in> set (products d)"
      and eq: "p_id p = product_id (product item)"
    from assms(2) item obtain p' where
      p': "find (\<lambda>x. p_id x = product_id (product item)) (products d) = Some p'"
        "quantity item \<le> p_stock p'"
      by (auto simp: valid_line_def split: option.splits)
    from find_unique_row[OF p'(1) assms(4) p eq] p'(2) show "quantity item \<le> p_stock p"
      by simp
  qed
  have "\<forall>p \<in> set (products (snd (reduce_stock e items 0 d))). 0 \<le> p_stock p"
    using assms(5) enough assms(3) by (rule reduce_stock_nonneg)
  with place_items_products[of e req items d] assms(5)
  have pi: "\<forall>p \<in> set (products (store (place_items e req items d))). 0 \<le> p_stock p"
    by auto
  from placeNewOrder_array_store[OF assms(1), of e d]
  show "\<forall>p \<in> set (products (store (placeNewOrder e req d))). 0 \<le> p_stock p"
    using pi assms(5) by auto
next
  assume a: "\<not> shipping_missing (body req) \<and> items \<noteq> [] \<and> (\<forall>q. \<not> rejects e q)"
  then have run: "placeNewOrder e req d = place_items e req items d"
    using assms(1) by (simp add: placeNewOrder_array)
  from a have ne: "items \<noteq> []" and nr: "\<forall>q. \<not> rejects e q" by simp_all
  note r = place_items_ok[OF assms(2) ne nr, of req, simplified Let_def]
  show "nexts (placeNewOrder e req d) = []"
    unfolding run by (subst r) simp
  show "products (store (placeNewOrder e req d)) =
          map (\<lambda>p. case find (\<lambda>item. product_id (product item) = p_id p) items of
                     None \<Rightarrow> p
                   | Some item \<Rightarrow> p\<lparr>p_stock := p_stock p - quantity item\<rparr>) (products d)"
    unfolding run by (subst r) (simp add: fold_update_stock_distinct[OF assms(3)])
qed

theorem stock_stays_nonnegative_witness:
  "distinct (map p_id (products ex_db)) \<and>
   list_all (\<lambda>p. 0 \<le> p_stock p) (products ex_db) \<and>
   valid_line (products ex_db) (ex_line ''P1'' 2) \<and>
   valid_line (products ex_db) (ex_line ''P2'' 3) \<and>
   list_all (\<lambda>p. 0 \<le> p_stock p)
     (products (store (placeNewOrder ex_env
        \<lparr>body = ex_body (Some (JArr [ex_line ''P1'' 2, ex_line ''P2'' 3])), user_id = ''U1''\<rparr> ex_db))) \<and>
   nexts (placeNewOrder ex_env
     \<lparr>body = ex_body (Some (JArr [ex_line ''P1'' 2, ex_line ''P2'' 3])), user_id = ''U1''\<rparr> ex_db) = [] \<and>
   map p_stock (products (store (placeNewOrder ex_env
     \<lparr>body = ex_body (Some (JArr [ex_line ''P1'' 2, ex_line ''P2'' 3])), user_id = ''U1''\<rparr> ex_db))) = [3, 0]"
proof -
  let ?items = "[ex_line ''P1'' 2, ex_line ''P2'' 3]"
  let ?req = "\<lparr>body = ex_body (Some (JArr ?items)), user_id = ''U1''\<rparr>"
  have h1: "orderedItems (body ?req) = Some (JArr ?items)" by (simp add: ex_body_def)
  have v1: "valid_line (products ex_db) (ex_line ''P1'' 2)"
    by (simp add: valid_line_def ex_db_def ex_line_def)
  have v2: "valid_line (products ex_db) (ex_line ''P2'' 3)"
    by (simp add: valid_line_def ex_db_def ex_line_def)
  from v1 v2 have h2: "\<forall>item \<in> set ?items. valid_line (products ex_db) item" by simp
  have h3: "distinct (map (\<lambda>item. product_id (product item)) ?items)" by (simp add: ex_line_def)
  have h4: "distinct (map p_id (products ex_db))" by (simp add: ex_db_def)
  have h5: "\<forall>p \<in> set (products ex_db). 0 \<le> p_stock p" by (simp add: ex_db_def)
  have h6: "\<not> shipping_missing (body ?req) \<and> ?items \<noteq> [] \<and> (\<forall>q. \<not> rejects ex_env q)"
    by (simp add: shipping_missing_def falsy_def ex_body_def ex_env_def)
  note t = stock_stays_nonnegative[OF h1 h2 h3 h4 h5, of ex_env]
  have a: "list_all (\<lambda>p. 0 \<le> p_stock p) (products (store (placeNewOrder ex_env ?req ex_db)))"
    using t[THEN conjunct1] by (simp add: list_all_iff)
  have n: "nexts (placeNewOrder ex_env ?req ex_db) = []"
    using t[THEN conjunct2, rule_format, OF h6] by simp
  have p: "map p_stock (products (store (placeNewOrder ex_env ?req ex_db))) = [3, 0]"
    using t[THEN conjunct2, rule_format, OF h6] by (simp add: ex_db_def ex_line_def)
  show ?thesis using h4 h5 v1 v2 a n p by (simp add: list_all_iff)
qed

text \<open>
  C2 as stated fails: from non-negative stocks, a cart with two lines for the mug
  (2 and 3 of a stock of 3) is placed with no error, and the stock is then -2.
\<close>

theorem stock_nonnegative_counterexample:
  "list_all (\<lambda>p. 0 \<le> p_stock p) (products ex_db) \<and>
   nexts (placeNewOrder ex_env
     \<lparr>body = ex_body (Some (JArr [ex_line ''P2'' 2, ex_line ''P2'' 3])), user_id = ''U1''\<rparr> ex_db) = [] \<and>
   products (store (placeNewOrder ex_env
     \<lparr>body = ex_body (Some (JArr [ex_line ''P2'' 2, ex_line ''P2'' 3])), user_id = ''U1''\<rparr> ex_db)) =
     [\<lparr>p_id = ''P1'', p_price = 30, p_stock = 5, p_name = ''Lamp''\<rparr>,
      \<lparr>p_id = ''P2'', p_price = 10, p_stock = - 2, p_name = ''Mug''\<rparr>]"
  by code_simp

subsection \<open>Failures of a placement\<close>

lemma placeNewOrder_parsed:
  assumes "\<not> shipping_missing (body req)"
    and "parse_items e (orderedItems (body req)) = Some (JArr xs)"
    and "xs \<noteq> []"
  shows "placeNewOrder e req d = place_items e req xs d"
  using assms by (simp add: placeNewOrder_def falsy_def Let_def)

lemma orders_inserts [simp]:
  "orders (sql_insert_shipping_info e i b d) = orders d"
  "orders (sql_insert_payment i d) = orders d"
  by (simp_all add: sql_insert_shipping_info_def sql_insert_payment_def)

lemma orders_reduce_stock [simp]:
  "orders (snd (reduce_stock e items k d)) = orders d"
  by (induction items arbitrary: k d) (simp_all add: sql_update_stock_def)

lemma store_of_stock_case:
  "store (case r of (Some x, d5) \<Rightarrow> \<lparr>nexts = a, ending = Throw x, store = d5\<rparr>
                  | (None, d5) \<Rightarrow> \<lparr>nexts = a, ending = Json j, store = d5\<rparr>) = snd r"
  by (cases r) (auto split: option.splits)

text \<open>
  C1, as amended. A failed validation is detected before any write: the 400 error
  goes to \<open>next\<close>, the handler returns at once and the store is unchanged. A
  rejected product lookup or order insert leaves the handler as the exception with
  the store unchanged. A rejected insert of the items, the shipping record or the
  payment leaves the handler as the exception with no stock decrement; but the
  writes are not a transaction, and once the order insert has gone through the
  order row stays, whatever fails after it.
\<close>

theorem placeNewOrder_failures:
  "(shipping_missing (body req) \<longrightarrow>
      placeNewOrder e req d =
        \<lparr>nexts = [ErrorHandler ''Please provide complete shipping details.'' 400],
         ending = Returned, store = d\<rparr>) \<and>
   (\<not> shipping_missing (body req) \<and> parse_items e (orderedItems (body req)) = Some items \<and>
    (falsy (Some items) \<or> js_length items = Some (JNum 0)) \<longrightarrow>
      placeNewOrder e req d =
        \<lparr>nexts = [ErrorHandler ''No items in cart.'' 400], ending = Returned, store = d\<rparr>) \<and>
   (\<not> shipping_missing (body req) \<and> parse_items e (orderedItems (body req)) = Some (JArr xs) \<and>
    xs \<noteq> [] \<and> (rejects e Select_products \<or> rejects e Insert_order) \<longrightarrow>
      ending (placeNewOrder e req d) = Throw DbError \<and> store (placeNewOrder e req d) = d) \<and>
   (\<not> shipping_missing (body req) \<and> parse_items e (orderedItems (body req)) = Some (JArr xs) \<and>
    xs \<noteq> [] \<and>
    (rejects e Insert_order_items \<or> rejects e Insert_shipping_info \<or> rejects e Insert_payment) \<longrightarrow>
      ending (placeNewOrder e req d) = Throw DbError \<and>
      products (store (placeNewOrder e req d)) = products d) \<and>
   (\<not> shipping_missing (body req) \<and> parse_items e (orderedItems (body req)) = Some (JArr xs) \<and>
    xs \<noteq> [] \<and> \<not> rejects e Select_products \<and> \<not> rejects e Insert_order \<longrightarrow>
      (\<exists>ord. orders (store (placeNewOrder e req d)) = orders d @ [ord]))"
proof (intro conjI impI)
  assume "shipping_missing (body req)"
  then show "placeNewOrder e req d =
        \<lparr>nexts = [ErrorHandler ''Please provide complete shipping details.'' 400],
         ending = Returned, store = d\<rparr>"
    by (simp add: placeNewOrder_def)
next
  assume "\<not> shipping_missing (body req) \<and> parse_items e (orderedItems (body req)) = Some items \<and>
    (falsy (Some items) \<or> js_length items = Some (JNum 0))"
  then show "placeNewOrder e req d =
        \<lparr>nexts = [ErrorHandler ''No items in cart.'' 400], ending = Returned, store = d\<rparr>"
    by (auto simp: placeNewOrder_def)
next
  assume a: "\<not> shipping_missing (body req) \<and> parse_items e (orderedItems (body req)) = Some (JArr xs) \<and>
    xs \<noteq> [] \<and> (rejects e Select_products \<or> rejects e Insert_order)"
  then have run: "placeNewOrder e req d = place_items e req xs d"
    by (simp add: placeNewOrder_parsed)
  from a show "ending (placeNewOrder e req d) = Throw DbError"
    unfolding run by (auto simp: place_items_def Let_def)
  from a show "store (placeNewOrder e req d) = d"
    unfolding run by (auto simp: place_items_def Let_def)
next
  assume a: "\<not> shipping_missing (body req) \<and> parse_items e (orderedItems (body req)) = Some (JArr xs) \<and>
    xs \<noteq> [] \<and>
    (rejects e Insert_order_items \<or> rejects e Insert_shipping_info \<or> rejects e Insert_payment)"
  then have run: "placeNewOrder e req d = place_items e req xs d"
    by (simp add: placeNewOrder_parsed)
  from a show "ending (placeNewOrder e req d) = Throw DbError"
    unfolding run by (auto simp: place_items_def Let_def)
  from a show "products (store (placeNewOrder e req d)) = products d"
    unfolding run by (auto simp: place_items_def Let_def)
next
  assume a: "\<not> shipping_missing (body req) \<and> parse_items e (orderedItems (body req)) = Some (JArr xs) \<and>
    xs \<noteq> [] \<and> \<not> rejects e Select_products \<and> \<not> rejects e Insert_order"
  then have run: "placeNewOrder e req d = place_items e req xs d"
    by (simp add: placeNewOrder_parsed)
  from a show "\<exists>ord. orders (store (placeNewOrder e req d)) = orders d @ [ord]"
    unfolding run
    by (simp add: place_items_def Let_def store_of_stock_case sql_insert_order_def)
qed

theorem placeNewOrder_failures_witness:
  "shipping_missing ((ex_body (Some (JArr [ex_line ''P1'' 2])))\<lparr>full_name := Some (JStr '''')\<rparr>) \<and>
   placeNewOrder ex_env
     \<lparr>body = (ex_body (Some (JArr [ex_line ''P1'' 2])))\<lparr>full_name := Some (JStr '''')\<rparr>,
      user_id = ''U1''\<rparr> ex_db =
     \<lparr>nexts = [ErrorHandler ''Please provide complete shipping details.'' 400],
      ending = Returned, store = ex_db\<rparr> \<and>
   js_length (JArr []) = Some (JNum 0) \<and>
   placeNewOrder ex_env \<lparr>body = ex_body (Some (JArr [])), user_id = ''U1''\<rparr> ex_db =
     \<lparr>nexts = [ErrorHandler ''No items in cart.'' 400], ending = Returned, store = ex_db\<rparr> \<and>
   rejects (ex_env_rejecting Insert_order) Insert_order \<and>
   ending (placeNewOrder (ex_env_rejecting Insert_order)
     \<lparr>body = ex_body (Some (JArr [ex_line ''P1'' 2])), user_id = ''U1''\<rparr> ex_db) = Throw DbError \<and>
   store (placeNewOrder (ex_env_rejecting Insert_order)
     \<lparr>body = ex_body (Some (JArr [ex_line ''P1'' 2])), user_id = ''U1''\<rparr> ex_db) = ex_db \<and>
   rejects (ex_env_rejecting Insert_payment) Insert_payment \<and>
   ending (placeNewOrder (ex_env_rejecting Insert_payment)
     \<lparr>body = ex_body (Some (JArr [ex_line ''P1'' 2])), user_id = ''U1''\<rparr> ex_db) = Throw DbError \<and>
   products (store (placeNewOrder (ex_env_rejecting Insert_payment)
     \<lparr>body = ex_body (Some (JArr [ex_line ''P1'' 2])), user_id = ''U1''\<rparr> ex_db)) = products ex_db \<and>
   (\<exists>ord. orders (store (placeNewOrder (ex_env_rejecting Insert_payment)
     \<lparr>body = ex_body (Some (JArr [ex_line ''P1'' 2])), user_id = ''U1''\<rparr> ex_db)) = [ord])"
proof -
  let ?cart = "Some (JArr [ex_line ''P1'' 2])"
  let ?req = "\<lparr>body = ex_body ?cart, user_id = ''U1''\<rparr>"
  let ?req1 = "\<lparr>body = (ex_body ?cart)\<lparr>full_name := Some (JStr '''')\<rparr>, user_id = ''U1''\<rparr>"
  let ?req2 = "\<lparr>body = ex_body (Some (JArr [])), user_id = ''U1''\<rparr>"
  have m1: "shipping_missing (body ?req1)"
    by (simp add: shipping_missing_def falsy_def)
  have ok: "\<not> shipping_missing (body r)" if "body r = ex_body c" for r :: place_req and c
    using that by (simp add: shipping_missing_def falsy_def ex_body_def)
  have p: "parse_items en (orderedItems (body \<lparr>body = ex_body (Some (JArr xs)), user_id = ''U1''\<rparr>)) =
           Some (JArr xs)" for en xs
    by (simp add: parse_items_def ex_body_def)
  have l0: "js_length (JArr []) = Some (JNum 0)" by simp
  have r1: "rejects (ex_env_rejecting Insert_order) Insert_order"
    by (simp add: ex_env_rejecting_def)
  have r2: "rejects (ex_env_rejecting Insert_payment) Insert_payment"
    by (simp add: ex_env_rejecting_def)
  have n2: "\<not> rejects (ex_env_rejecting Insert_payment) Select_products \<and>
            \<not> rejects (ex_env_rejecting Insert_payment) Insert_order"
    by (simp add: ex_env_rejecting_def)
  have ne: "[ex_line ''P1'' 2] \<noteq> []" by simp
  note A = placeNewOrder_failures[where req = ?req1 and e = ex_env and d = ex_db,
      THEN conjunct1, rule_format, OF m1]
  have B: "placeNewOrder ex_env ?req2 ex_db =
     \<lparr>nexts = [ErrorHandler ''No items in cart.'' 400], ending = Returned, store = ex_db\<rparr>"
    using placeNewOrder_failures[where req = ?req2 and e = ex_env and d = ex_db
        and items = "JArr []", THEN conjunct2, THEN conjunct1] ok[of ?req2] p[of ex_env "[]"] l0
    by simp
  have C: "ending (placeNewOrder (ex_env_rejecting Insert_order) ?req ex_db) = Throw DbError \<and>
           store (placeNewOrder (ex_env_rejecting Insert_order) ?req ex_db) = ex_db"
    using placeNewOrder_failures[where req = ?req and e = "ex_env_rejecting Insert_order"
        and d = ex_db and xs = "[ex_line ''P1'' 2]", THEN conjunct2, THEN conjunct2, THEN conjunct1]
      ok[of ?req] p[of "ex_env_rejecting Insert_order" "[ex_line ''P1'' 2]"] r1 ne
    by simp
  have D: "ending (placeNewOrder (ex_env_rejecting Insert_payment) ?req ex_db) = Throw DbError \<and>
           products (store (placeNewOrder (ex_env_rejecting Insert_payment) ?req ex_db)) =
             products ex_db"
    using placeNewOrder_failures[where req = ?req and e = "ex_env_rejecting Insert_payment"
        and d = ex_db and xs = "[ex_line ''P1'' 2]",
        THEN conjunct2, THEN conjunct2, THEN conjunct2, THEN conjunct1]
      ok[of ?req] p[of "ex_env_rejecting Insert_payment" "[ex_line ''P1'' 2]"] r2 ne
    by simp
  have E: "\<exists>ord. orders (store (placeNewOrder (ex_env_rejecting Insert_payment) ?req ex_db)) = [ord]"
    using placeNewOrder_failures[where req = ?req and e = "ex_env_rejecting Insert_payment"
        and d = ex_db and xs = "[ex_line ''P1'' 2]",
        THEN conjunct2, THEN conjunct2, THEN conjunct2, THEN conjunct2]
      ok[of ?req] p[of "ex_env_rejecting Insert_payment" "[ex_line ''P1'' 2]"] n2 ne
    by (simp add: ex_db_def)
  show ?thesis using m1 A l0 B r1 C r2 D E by simp
qed

text \<open>
  C1 as stated fails: with a valid cart and a store that rejects the insert of the
  shipping record, the handler ends with the exception, and the order row and its
  item row stay in the store.
\<close>

theorem placement_not_atomic_counterexample:
  "ending (placeNewOrder (ex_env_rejecting Insert_shipping_info)
     \<lparr>body = ex_body (Some (JArr [ex_line ''P1'' 2])), user_id = ''U1''\<rparr> ex_db) = Throw DbError \<and>
   store (placeNewOrder (ex_env_rejecting Insert_shipping_info)
     \<lparr>body = ex_body (Some (JArr [ex_line ''P1'' 2])), user_id = ''U1''\<rparr> ex_db) =
     \<lparr>products = products ex_db,
      orders = [ex_order],
      order_items = [\<lparr>oi_id = ''id1'', oi_order_id = Some ''id0'', oi_product_id = ''P1'',
                      oi_quantity = 2, oi_price = 30, oi_image = [], oi_title = ''Lamp''\<rparr>],
      shipping_info = [], payments = []\<rparr> \<and>
   store (placeNewOrder (ex_env_rejecting Insert_shipping_info)
     \<lparr>body = ex_body (Some (JArr [ex_line ''P1'' 2])), user_id = ''U1''\<rparr> ex_db) \<noteq> ex_db"
  by code_simp

subsection \<open>Validation\<close>

lemma falsy_cases:
  "falsy v \<longleftrightarrow>
     v = None \<or> v = Some JNull \<or> v = Some (JBool False) \<or> v = Some (JNum 0) \<or> v = Some (JStr [])"
proof (cases v)
  case None
  then show ?thesis by (simp add: falsy_def)
next
  case (Some j)
  then show ?thesis by (cases j) (auto simp: falsy_def)
qed

text \<open>
  C8, as amended. Validation hands a 400 error to \<open>next\<close> when a shipping field is
  missing or falsy (\<open>undefined\<close>, \<open>null\<close>, \<open>false\<close>, 0 or the empty string; a field is
  not trimmed), and when the cart, an array or the value \<open>JSON.parse\<close> gives for the
  payload, is falsy or has length 0. A payload that \<open>JSON.parse\<close> refuses ends the
  handler with the SyntaxError, and a parsed value that is not an array with the
  TypeError of \<open>items.map\<close>: neither is reported as a 400 error. In all four cases the
  store is unchanged.
\<close>

theorem validation_outcomes:
  "(falsy v \<longleftrightarrow>
      v = None \<or> v = Some JNull \<or> v = Some (JBool False) \<or> v = Some (JNum 0) \<or> v = Some (JStr [])) \<and>
   (falsy (full_name (body req)) \<or> falsy (state (body req)) \<or> falsy (city (body req)) \<or>
    falsy (country (body req)) \<or> falsy (address (body req)) \<or> falsy (pincode (body req)) \<or>
    falsy (phone (body req)) \<longrightarrow>
      placeNewOrder e req d =
        \<lparr>nexts = [ErrorHandler ''Please provide complete shipping details.'' 400],
         ending = Returned, store = d\<rparr>) \<and>
   (\<not> shipping_missing (body req) \<and> parse_items e (orderedItems (body req)) = Some items \<and>
    (falsy (Some items) \<or> js_length items = Some (JNum 0)) \<longrightarrow>
      placeNewOrder e req d =
        \<lparr>nexts = [ErrorHandler ''No items in cart.'' 400], ending = Returned, store = d\<rparr>) \<and>
   (\<not> shipping_missing (body req) \<and> parse_items e (orderedItems (body req)) = None \<longrightarrow>
      placeNewOrder e req d = \<lparr>nexts = [], ending = Throw SyntaxError, store = d\<rparr>) \<and>
   (\<not> shipping_missing (body req) \<and> parse_items e (orderedItems (body req)) = Some items \<and>
    \<not> falsy (Some items) \<and> js_length items \<noteq> Some (JNum 0) \<and> (\<forall>xs. items \<noteq> JArr xs) \<longrightarrow>
      placeNewOrder e req d = \<lparr>nexts = [], ending = Throw TypeError, store = d\<rparr>)"
proof (intro conjI impI)
  show "falsy v \<longleftrightarrow>
      v = None \<or> v = Some JNull \<or> v = Some (JBool False) \<or> v = Some (JNum 0) \<or> v = Some (JStr [])"
    by (rule falsy_cases)
next
  assume "falsy (full_name (body req)) \<or> falsy (state (body req)) \<or> falsy (city (body req)) \<or>
    falsy (country (body req)) \<or> falsy (address (body req)) \<or> falsy (pincode (body req)) \<or>
    falsy (phone (body req))"
  then have "shipping_missing (body req)" by (simp add: shipping_missing_def)
  then show "placeNewOrder e req d =
        \<lparr>nexts = [ErrorHandler ''Please provide complete shipping details.'' 400],
         ending = Returned, store = d\<rparr>"
    by (simp add: placeNewOrder_def)
next
  assume "\<not> shipping_missing (body req) \<and> parse_items e (orderedItems (body req)) = Some items \<and>
    (falsy (Some items) \<or> js_length items = Some (JNum 0))"
  then show "placeNewOrder e req d =
        \<lparr>nexts = [ErrorHandler ''No items in cart.'' 400], ending = Returned, store = d\<rparr>"
    by (auto simp: placeNewOrder_def)
next
  assume "\<not> shipping_missing (body req) \<and> parse_items e (orderedItems (body req)) = None"
  then show "placeNewOrder e req d = \<lparr>nexts = [], ending = Throw SyntaxError, store = d\<rparr>"
    by (simp add: placeNewOrder_def)
next
  assume a: "\<not> shipping_missing (body req) \<and> parse_items e (orderedItems (body req)) = Some items \<and>
    \<not> falsy (Some items) \<and> js_length items \<noteq> Some (JNum 0) \<and> (\<forall>xs. items \<noteq> JArr xs)"
  then show "placeNewOrder e req d = \<lparr>nexts = [], ending = Throw TypeError, store = d\<rparr>"
    by (cases items) (simp_all add: placeNewOrder_def)
qed

theorem validation_outcomes_witness:
  "falsy (phone ((ex_body (Some (JArr [ex_line ''P1'' 2])))\<lparr>phone := None\<rparr>)) \<and>
   placeNewOrder ex_env
     \<lparr>body = (ex_body (Some (JArr [ex_line ''P1'' 2])))\<lparr>phone := None\<rparr>, user_id = ''U1''\<rparr> ex_db =
     \<lparr>nexts = [ErrorHandler ''Please provide complete shipping details.'' 400],
      ending = Returned, store = ex_db\<rparr> \<and>
   parse_items ex_env None = Some (JArr []) \<and>
   placeNewOrder ex_env \<lparr>body = ex_body None, user_id = ''U1''\<rparr> ex_db =
     \<lparr>nexts = [ErrorHandler ''No items in cart.'' 400], ending = Returned, store = ex_db\<rparr> \<and>
   parse_items ex_env (Some (JStr ''[oops'')) = None \<and>
   placeNewOrder ex_env \<lparr>body = ex_body (Some (JStr ''[oops'')), user_id = ''U1''\<rparr> ex_db =
     \<lparr>nexts = [], ending = Throw SyntaxError, store = ex_db\<rparr> \<and>
   parse_items ex_env (Some (JStr ''{}'')) = Some (JObj []) \<and>
   placeNewOrder ex_env \<lparr>body = ex_body (Some (JStr ''{}'')), user_id = ''U1''\<rparr> ex_db =
     \<lparr>nexts = [], ending = Throw TypeError, store = ex_db\<rparr>"
proof -
  let ?req1 = "\<lparr>body = (ex_body (Some (JArr [ex_line ''P1'' 2])))\<lparr>phone := None\<rparr>, user_id = ''U1''\<rparr>"
  have f: "falsy (phone (body ?req1))" by (simp add: falsy_def)
  have ok: "\<not> shipping_missing (body \<lparr>body = ex_body c, user_id = ''U1''\<rparr>)" for c
    by (simp add: shipping_missing_def falsy_def ex_body_def)
  have p0: "parse_items ex_env None = Some (JArr [])"
    by (simp add: parse_items_def ex_env_def)
  have p1: "parse_items ex_env (Some (JStr ''[oops'')) = None"
    by (simp add: parse_items_def ex_env_def)
  have p2: "parse_items ex_env (Some (JStr ''{}'')) = Some (JObj [])"
    by (simp add: parse_items_def ex_env_def)
  have oi: "orderedItems (ex_body c) = c" for c
    by (simp add: ex_body_def)
  have A: "placeNewOrder ex_env ?req1 ex_db =
     \<lparr>nexts = [ErrorHandler ''Please provide complete shipping details.'' 400],
      ending = Returned, store = ex_db\<rparr>"
    using validation_outcomes[where req = ?req1 and e = ex_env and d = ex_db,
        THEN conjunct2, THEN conjunct1] f
    by blast
  have B: "placeNewOrder ex_env \<lparr>body = ex_body None, user_id = ''U1''\<rparr> ex_db =
     \<lparr>nexts = [ErrorHandler ''No items in cart.'' 400], ending = Returned, store = ex_db\<rparr>"
    using validation_outcomes[where req = "\<lparr>body = ex_body None, user_id = ''U1''\<rparr>"
        and e = ex_env and d = ex_db and items = "JArr []",
        THEN conjunct2, THEN conjunct2, THEN conjunct1] ok[of None] p0
    by (simp add: oi)
  have C: "placeNewOrder ex_env \<lparr>body = ex_body (Some (JStr ''[oops'')), user_id = ''U1''\<rparr> ex_db =
     \<lparr>nexts = [], ending = Throw SyntaxError, store = ex_db\<rparr>"
    using validation_outcomes[where req = "\<lparr>body = ex_body (Some (JStr ''[oops'')), user_id = ''U1''\<rparr>"
        and e = ex_env and d = ex_db,
        THEN conjunct2, THEN conjunct2, THEN conjunct2, THEN conjunct1]
      ok[of "Some (JStr ''[oops'')"] p1
    by (simp add: oi)
  have D: "placeNewOrder ex_env \<lparr>body = ex_body (Some (JStr ''{}'')), user_id = ''U1''\<rparr> ex_db =
     \<lparr>nexts = [], ending = Throw TypeError, store = ex_db\<rparr>"
    using validation_outcomes[where req = "\<lparr>body = ex_body (Some (JStr ''{}'')), user_id = ''U1''\<rparr>"
        and e = ex_env and d = ex_db and items = "JObj []",
        THEN conjunct2, THEN conjunct2, THEN conjunct2, THEN conjunct2]
      ok[of "Some (JStr ''{}'')"] p2
    by (simp add: oi falsy_def)
  show ?thesis using f A p0 B p1 C p2 D by simp
qed

text \<open>
  C8 as stated fails. A full name of three spaces passes validation and the order
  is placed with it; a payload that is not JSON ends the handler with the
  SyntaxError of \<open>JSON.parse\<close>, and a payload that parses to an object with a
  TypeError, not with a 400 error.
\<close>

theorem validation_counterexample:
  "nexts (placeNewOrder ex_env
     \<lparr>body = (ex_body (Some (JArr [ex_line ''P1'' 2])))\<lparr>full_name := Some (JStr ''   '')\<rparr>,
      user_id = ''U1''\<rparr> ex_db) = [] \<and>
   ending (placeNewOrder ex_env
     \<lparr>body = (ex_body (Some (JArr [ex_line ''P1'' 2])))\<lparr>full_name := Some (JStr ''   '')\<rparr>,
      user_id = ''U1''\<rparr> ex_db) =
     Json \<lparr>r_success = True, r_message = ''Order placed successfully.'', r_order = ex_order,
           r_total_price = 71\<rparr> \<and>
   map s_full_name (shipping_info (store (placeNewOrder ex_env
     \<lparr>body = (ex_body (Some (JArr [ex_line ''P1'' 2])))\<lparr>full_name := Some (JStr ''   '')\<rparr>,
      user_id = ''U1''\<rparr> ex_db))) = [Some (JStr ''   '')] \<and>
   placeNewOrder ex_env \<lparr>body = ex_body (Some (JStr ''[oops'')), user_id = ''U1''\<rparr> ex_db =
     \<lparr>nexts = [], ending = Throw SyntaxError, store = ex_db\<rparr> \<and>
   placeNewOrder ex_env \<lparr>body = ex_body (Some (JStr ''{}'')), user_id = ''U1''\<rparr> ex_db =
     \<lparr>nexts = [], ending = Throw TypeError, store = ex_db\<rparr>"
  by code_simp

subsection \<open>A failed check of a line\<close>

text \<open>
  C4. The claim holds of the errors: a line beyond the stock hands the 400 error
  with the remaining stock and the product's name to \<open>next\<close>. But the placement does
  not fail as a whole. The \<open>return next(...)\<close> of lines 57 and 63 leaves the callback
  of \<open>forEach\<close> only, and the handler goes on. For a lamp within the stock followed
  by four mugs of a stock of three, the order, the lamp's item, the shipping record
  and the payment are written, the stock of the mug is decremented to -1, and the
  response reports success. For the four mugs alone the order row is written and
  the insert of no items is then rejected.
\<close>

theorem stock_error_does_not_stop_placement:
  "placeNewOrder ex_env
     \<lparr>body = ex_body (Some (JArr [ex_line ''P1'' 1, ex_line ''P2'' 4])), user_id = ''U1''\<rparr> ex_db =
   \<lparr>nexts = [\<lparr>message = ''Only 3 units available for Mug'', statusCode = 400\<rparr>],
    ending = Json \<lparr>r_success = True, r_message = ''Order placed successfully.'',
      r_order = \<lparr>o_id = ''id0'', buyer_id = ''U1'', total_price = 37, tax_price = 18 / 100,
                 shipping_price = 2, order_status = JStr ''Processing'', paid_at = Some 1000\<rparr>,
      r_total_price = 37\<rparr>,
    store =
      \<lparr>products = [\<lparr>p_id = ''P1'', p_price = 30, p_stock = 4, p_name = ''Lamp''\<rparr>,
                   \<lparr>p_id = ''P2'', p_price = 10, p_stock = - 1, p_name = ''Mug''\<rparr>],
       orders = [\<lparr>o_id = ''id0'', buyer_id = ''U1'', total_price = 37, tax_price = 18 / 100,
                  shipping_price = 2, order_status = JStr ''Processing'', paid_at = Some 1000\<rparr>],
       order_items = [\<lparr>oi_id = ''id1'', oi_order_id = Some ''id0'', oi_product_id = ''P1'',
                       oi_quantity = 1, oi_price = 30, oi_image = [], oi_title = ''Lamp''\<rparr>],
       shipping_info = [\<lparr>s_id = ''id2'', s_order_id = Some ''id0'',
           s_full_name = Some (JStr ''Ann Lee''), s_state = Some (JStr ''Goa''),
           s_city = Some (JStr ''Panaji''), s_country = Some (JStr ''India''),
           s_address = Some (JStr ''1 Main St''), s_pincode = Some (JNum 403001),
           s_phone = Some (JStr ''5550100'')\<rparr>],
       payments = [\<lparr>pay_order_id = Some ''id0'', payment_type = ''Online'',
                    payment_status = ''Paid'', payment_intent_id = None\<rparr>]\<rparr>\<rparr> \<and>
   placeNewOrder ex_env
     \<lparr>body = ex_body (Some (JArr [ex_line ''P2'' 4])), user_id = ''U1''\<rparr> ex_db =
   \<lparr>nexts = [\<lparr>message = ''Only 3 units available for Mug'', statusCode = 400\<rparr>],
    ending = Throw DbError,
    store = ex_db\<lparr>orders :=
      [\<lparr>o_id = ''id0'', buyer_id = ''U1'', total_price = 2, tax_price = 18 / 100,
        shipping_price = 2, order_status = JStr ''Processing'', paid_at = Some 1000\<rparr>]\<rparr>\<rparr>"
  by code_simp

subsection \<open>fetchSingleOrder and deleteOrder\<close>

text \<open>
  C5. \<open>fetchSingleOrder\<close> has no check for a query without rows: for an identifier
  of no order it responds with status 200 and no order (\<open>result.rows[0]\<close> is
  \<open>undefined\<close>) and hands nothing to \<open>next\<close>, where \<open>updateOrderStatus\<close> and
  \<open>deleteOrder\<close> hand the 404 error to \<open>next\<close> for the same identifier.
\<close>

theorem fetch_unknown_order_is_success:
  "fetchSingleOrder ex_env ''id9'' ex_db_placed =
     \<lparr>nexts = [],
      ending = Json \<lparr>res_success = True, res_message = ''Order fetched.'', res_data = None\<rparr>,
      store = ex_db_placed\<rparr> \<and>
   nexts (updateOrderStatus ex_env (Some (JStr ''Shipped'')) ''id9'' ex_db_placed) =
     [\<lparr>message = ''Invalid order ID.'', statusCode = 404\<rparr>] \<and>
   nexts (deleteOrder ex_env ''id9'' ex_db_placed) =
     [\<lparr>message = ''Invalid order ID.'', statusCode = 404\<rparr>]"
  by code_simp

lemma select_joined_none:
  "\<forall>od \<in> set (orders d). o_id od \<noteq> orderId \<Longrightarrow> sql_select_order_joined orderId d = []"
proof -
  assume "\<forall>od \<in> set (orders d). o_id od \<noteq> orderId"
  then have "filter (\<lambda>od. o_id od = orderId) (orders d) = []"
    by (simp add: filter_empty_conv)
  then have "joined_rows orderId d = []"
    by (simp add: joined_rows_def)
  then show ?thesis
    by (simp add: sql_select_order_joined_def group_by_key_def List.map_filter_def)
qed

text \<open>
  C6, as amended. \<open>deleteOrder\<close> hands the 404 error to \<open>next\<close> when no order has
  the identifier, and the store is unchanged. For an existing order it removes the
  order rows with the identifier and responds with the deleted row; afterwards no
  order of the store has the identifier and the query of \<open>fetchSingleOrder\<close> finds
  no row for it. The statement names the table \<open>orders\<close> only: the rows of
  \<open>order_items\<close>, \<open>shipping_info\<close> and \<open>payments\<close> are as they were.
\<close>

theorem deleteOrder_removes_order_row:
  "(\<not> rejects e Delete_order \<and> (\<forall>od \<in> set (orders d). o_id od \<noteq> orderId) \<longrightarrow>
      deleteOrder e orderId d =
        \<lparr>nexts = [ErrorHandler ''Invalid order ID.'' 404], ending = Returned, store = d\<rparr>) \<and>
   (\<not> rejects e Delete_order \<and> find (\<lambda>od. o_id od = orderId) (orders d) = Some old \<longrightarrow>
      nexts (deleteOrder e orderId d) = [] \<and>
      ending (deleteOrder e orderId d) =
        Json \<lparr>res_success = True, res_message = ''Order deleted.'', res_data = old\<rparr> \<and>
      orders (store (deleteOrder e orderId d)) = filter (\<lambda>od. o_id od \<noteq> orderId) (orders d) \<and>
      (\<forall>od \<in> set (orders (store (deleteOrder e orderId d))). o_id od \<noteq> orderId) \<and>
      sql_select_order_joined orderId (store (deleteOrder e orderId d)) = [] \<and>
      order_items (store (deleteOrder e orderId d)) = order_items d \<and>
      shipping_info (store (deleteOrder e orderId d)) = shipping_info d \<and>
      payments (store (deleteOrder e orderId d)) = payments d \<and>
      products (store (deleteOrder e orderId d)) = products d)"
proof (intro conjI impI)
  assume a: "\<not> rejects e Delete_order \<and> (\<forall>od \<in> set (orders d). o_id od \<noteq> orderId)"
  then have none: "sql_select_order orderId d = []"
    by (simp add: sql_select_order_def filter_empty_conv)
  from a have "filter (\<lambda>od. o_id od \<noteq> orderId) (orders d) = orders d"
    by (simp add: filter_id_conv)
  then have same: "sql_delete_order orderId d = d"
    by (simp add: sql_delete_order_def)
  from a show "deleteOrder e orderId d =
        \<lparr>nexts = [ErrorHandler ''Invalid order ID.'' 404], ending = Returned, store = d\<rparr>"
    by (simp add: deleteOrder_def none same)
next
  assume a: "\<not> rejects e Delete_order \<and> find (\<lambda>od. o_id od = orderId) (orders d) = Some old"
  then obtain rest where sel: "sql_select_order orderId d = old # rest"
    using filter_hd_find[of "\<lambda>od. o_id od = orderId" "orders d" old]
    by (auto simp: sql_select_order_def)
  have run: "deleteOrder e orderId d =
     \<lparr>nexts = [],
      ending = Json \<lparr>res_success = True, res_message = ''Order deleted.'', res_data = old\<rparr>,
      store = sql_delete_order orderId d\<rparr>"
    using a by (simp add: deleteOrder_def sel)
  have gone: "\<forall>od \<in> set (orders (sql_delete_order orderId d)). o_id od \<noteq> orderId"
    by (simp add: sql_delete_order_def)
  show "nexts (deleteOrder e orderId d) = []" by (simp add: run)
  show "ending (deleteOrder e orderId d) =
        Json \<lparr>res_success = True, res_message = ''Order deleted.'', res_data = old\<rparr>"
    by (simp add: run)
  show "orders (store (deleteOrder e orderId d)) = filter (\<lambda>od. o_id od \<noteq> orderId) (orders d)"
    by (simp add: run sql_delete_order_def)
  show "\<forall>od \<in> set (orders (store (deleteOrder e orderId d))). o_id od \<noteq> orderId"
    using gone by (simp add: run)
  show "sql_select_order_joined orderId (store (deleteOrder e orderId d)) = []"
    using select_joined_none[OF gone] by (simp add: run)
  show "order_items (store (deleteOrder e orderId d)) = order_items d"
    by (simp add: run sql_delete_order_def)
  show "shipping_info (store (deleteOrder e orderId d)) = shipping_info d"
    by (simp add: run sql_delete_order_def)
  show "payments (store (deleteOrder e orderId d)) = payments d"
    by (simp add: run sql_delete_order_def)
  show "products (store (deleteOrder e orderId d)) = products d"
    by (simp add: run sql_delete_order_def)
qed

theorem deleteOrder_removes_order_row_witness:
  "deleteOrder ex_env ''id9'' ex_db_placed =
     \<lparr>nexts = [ErrorHandler ''Invalid order ID.'' 404], ending = Returned, store = ex_db_placed\<rparr> \<and>
   find (\<lambda>od. o_id od = ''id0'') (orders ex_db_placed) = Some ex_order \<and>
   ending (deleteOrder ex_env ''id0'' ex_db_placed) =
     Json \<lparr>res_success = True, res_message = ''Order deleted.'', res_data = ex_order\<rparr> \<and>
   orders (store (deleteOrder ex_env ''id0'' ex_db_placed)) = [] \<and>
   sql_select_order_joined ''id0'' (store (deleteOrder ex_env ''id0'' ex_db_placed)) = [] \<and>
   order_items (store (deleteOrder ex_env ''id0'' ex_db_placed)) = order_items ex_db_placed \<and>
   length (order_items ex_db_placed) = 1"
proof -
  have nr: "\<not> rejects ex_env Delete_order" by (simp add: ex_env_def)
  have h1: "\<not> rejects ex_env Delete_order \<and> (\<forall>od \<in> set (orders ex_db_placed). o_id od \<noteq> ''id9'')"
    by (simp add: ex_env_def ex_db_placed_def ex_order_def)
  have f: "find (\<lambda>od. o_id od = ''id0'') (orders ex_db_placed) = Some ex_order"
    by (simp add: ex_db_placed_def ex_order_def)
  have l: "length (order_items ex_db_placed) = 1" by (simp add: ex_db_placed_def)
  note A = deleteOrder_removes_order_row[where e = ex_env and d = ex_db_placed
      and orderId = "''id9''", THEN conjunct1, rule_format, OF h1]
  note B = deleteOrder_removes_order_row[where e = ex_env and d = ex_db_placed
      and orderId = "''id0''" and old = ex_order, THEN conjunct2, rule_format, OF conjI[OF nr f]]
  have o: "orders (store (deleteOrder ex_env ''id0'' ex_db_placed)) = []"
    using B by (simp add: ex_db_placed_def ex_order_def)
  show ?thesis using A B f l o by simp
qed

text \<open>
  C6 as stated fails. After the order of \<open>ex_db_placed\<close> is deleted, its item, its
  shipping record and its payment are still in the store, and \<open>fetchSingleOrder\<close>
  answers the identifier with status 200 and no order, not with a 404 error.
\<close>

theorem deleteOrder_counterexample:
  "ending (deleteOrder ex_env ''id0'' ex_db_placed) =
     Json \<lparr>res_success = True, res_message = ''Order deleted.'', res_data = ex_order\<rparr> \<and>
   store (deleteOrder ex_env ''id0'' ex_db_placed) = ex_db_placed\<lparr>orders := []\<rparr> \<and>
   map oi_order_id (order_items (store (deleteOrder ex_env ''id0'' ex_db_placed))) = [Some ''id0''] \<and>
   map s_order_id (shipping_info (store (deleteOrder ex_env ''id0'' ex_db_placed))) = [Some ''id0''] \<and>
   map pay_order_id (payments (store (deleteOrder ex_env ''id0'' ex_db_placed))) = [Some ''id0''] \<and>
   fetchSingleOrder ex_env ''id0'' (store (deleteOrder ex_env ''id0'' ex_db_placed)) =
     \<lparr>nexts = [],
      ending = Json \<lparr>res_success = True, res_message = ''Order fetched.'', res_data = None\<rparr>,
      store = ex_db_placed\<lparr>orders := []\<rparr>\<rparr>"
  by code_simp

subsection \<open>Requests one after the other and at once\<close>

lemma task_run_Ended [simp]: "task_run e n (Ended ns x) d = (Ended ns x, d)"
  by (induction n) (simp_all add: task_step_def)

lemma task_run_stock:
  "task_run e (Suc (length rest)) (Await_update_stock l ord k item rest) d =
     (case reduce_stock e (item # rest) k d of
        (Some x, d5) \<Rightarrow> (Ended (fe_nexts (l_loop l)) (Throw x), d5)
      | (None, d5) \<Rightarrow>
          (Ended (fe_nexts (l_loop l))
             (Json \<lparr>r_success = True, r_message = ''Order placed successfully.'', r_order = ord,
                    r_total_price = total_price_of (fe_total_price (l_loop l))\<rparr>), d5))"
proof (induction rest arbitrary: k item d)
  case Nil
  then show ?case by (simp add: task_step_def next_stock_def)
next
  case (Cons a rest)
  show ?case
  proof (cases "rejects e (Update_stock k)")
    case True
    then show ?thesis by (simp add: task_step_def)
  next
    case False
    then show ?thesis
      using Cons.IH[of "Suc k" a "sql_update_stock (quantity item) (product_id (product item)) d"]
      by (simp add: task_step_def next_stock_def)
  qed
qed

lemma task_run_next_stock:
  "task_run e (length items) (next_stock l ord k items) d =
     (case reduce_stock e items k d of
        (Some x, d5) \<Rightarrow> (Ended (fe_nexts (l_loop l)) (Throw x), d5)
      | (None, d5) \<Rightarrow>
          (Ended (fe_nexts (l_loop l))
             (Json \<lparr>r_success = True, r_message = ''Order placed successfully.'', r_order = ord,
                    r_total_price = total_price_of (fe_total_price (l_loop l))\<rparr>), d5))"
proof (cases items)
  case Nil
  then show ?thesis by (simp add: next_stock_def)
next
  case (Cons item rest)
  then show ?thesis using task_run_stock[of e rest l ord k item d] by (simp add: next_stock_def)
qed

lemma task_run_select:
  "task_result (task_run e (5 + length items) (Await_select req items) d) =
   Some (place_items e req items d)"
proof -
  have 5: "5 + length items = Suc (Suc (Suc (Suc (Suc (length items)))))" by simp
  show ?thesis
    unfolding 5
    by (simp add: task_step_def place_items_def Let_def task_result_def task_run_next_stock
        split: prod.splits option.splits)
qed

text \<open>
  A task that runs alone is the handler: its steps, as many as it has left, end
  with the result of \<open>placeNewOrder\<close>.
\<close>

theorem task_run_is_placeNewOrder:
  "task_result (task_run e (steps_left (task_begin e req)) (task_begin e req) d) =
   Some (placeNewOrder e req d)"
proof (cases "\<exists>xs. task_begin e req = Await_select req xs")
  case True
  then obtain xs where b: "task_begin e req = Await_select req xs" by blast
  then have "placeNewOrder e req d = place_items e req xs d"
    by (auto simp: task_begin_def placeNewOrder_def Let_def split: if_splits option.splits json.splits)
  then show ?thesis using task_run_select[of e xs req d] by (simp add: b)
next
  case False
  then show ?thesis
    by (auto simp: task_begin_def placeNewOrder_def Let_def task_result_def
        split: if_splits option.splits json.splits)
qed

lemma place_single_valid:
  assumes "\<not> shipping_missing (body req)"
    and "orderedItems (body req) = Some (JArr [l])"
    and "find (\<lambda>x. p_id x = product_id (product l)) (products d) = Some p"
    and "quantity l \<le> p_stock p"
    and "\<forall>q. \<not> rejects e q"
  shows "nexts (placeNewOrder e req d) = []"
    and "\<exists>resp. ending (placeNewOrder e req d) = Json resp"
    and "find (\<lambda>x. p_id x = product_id (product l)) (products (store (placeNewOrder e req d))) =
         Some (p\<lparr>p_stock := p_stock p - quantity l\<rparr>)"
proof -
  have ok: "\<forall>item \<in> set [l]. valid_line (products d) item"
    using assms(3,4) by (simp add: valid_line_def)
  have run: "placeNewOrder e req d = place_items e req [l] d"
    using assms(1,2) by (simp add: placeNewOrder_array)
  note r = place_items_ok[OF ok _ assms(5), of req, simplified Let_def]
  show "nexts (placeNewOrder e req d) = []"
    unfolding run by (subst r) simp_all
  show "\<exists>resp. ending (placeNewOrder e req d) = Json resp"
    unfolding run by (subst r) simp_all
  have pr: "products (store (placeNewOrder e req d)) =
       map (\<lambda>x. if p_id x = product_id (product l) then x\<lparr>p_stock := p_stock x - quantity l\<rparr> else x)
         (products d)"
    unfolding run by (subst r) (auto simp: products_update_stock)
  show "find (\<lambda>x. p_id x = product_id (product l)) (products (store (placeNewOrder e req d))) =
         Some (p\<lparr>p_stock := p_stock p - quantity l\<rparr>)"
    using assms(3) unfolding pr
    by (subst find_map_same_id) (auto simp: find_Some_iff)
qed

lemma place_single_beyond_stock:
  assumes "\<not> shipping_missing (body req)"
    and "orderedItems (body req) = Some (JArr [l])"
    and "find (\<lambda>x. p_id x = product_id (product l)) (products d) = Some p"
    and "p_stock p < quantity l"
    and "\<forall>q. \<not> rejects e q"
  shows "nexts (placeNewOrder e req d) =
           [ErrorHandler (''Only '' @ decimal_of_int (p_stock p) @ '' units available for '' @ p_name p) 400]"
    and "\<forall>resp. ending (placeNewOrder e req d) \<noteq> Json resp"
    and "products (store (placeNewOrder e req d)) = products d"
proof -
  have run: "placeNewOrder e req d = place_items e req [l] d"
    using assms(1,2) by (simp add: placeNewOrder_array)
  have f: "find (\<lambda>x. p_id x = product_id (product l))
             (sql_select_products [product_id (product l)] d) = Some p"
    using assms(3) by (simp add: find_selected)
  have cb: "forEach_callback (sql_select_products [product_id (product l)] d) l 0
              \<lparr>fe_total_price = 0, fe_values = [], fe_placeholders = [], fe_nexts = []\<rparr> =
            \<lparr>fe_total_price = 0, fe_values = [], fe_placeholders = [],
             fe_nexts = [ErrorHandler (''Only '' @ decimal_of_int (p_stock p) @
                           '' units available for '' @ p_name p) 400]\<rparr>"
    using assms(4) by (simp add: forEach_callback_def f)
  show "nexts (placeNewOrder e req d) =
           [ErrorHandler (''Only '' @ decimal_of_int (p_stock p) @ '' units available for '' @ p_name p) 400]"
    unfolding run using assms(5) by (simp add: place_items_def cb statement_binds_def Let_def)
  show "\<forall>resp. ending (placeNewOrder e req d) \<noteq> Json resp"
    unfolding run using assms(5) by (simp add: place_items_def cb statement_binds_def Let_def)
  show "products (store (placeNewOrder e req d)) = products d"
    unfolding run using assms(5) by (simp add: place_items_def cb statement_binds_def Let_def)
qed

lemma place_seq_Cons:
  "place_seq e (req # reqs) d =
     (placeNewOrder e req d # fst (place_seq e reqs (store (placeNewOrder e req d))),
      snd (place_seq e reqs (store (placeNewOrder e req d))))"
  by (simp split: prod.splits)

lemma place_seq_sold_out:
  assumes "\<forall>req \<in> set reqs. \<not> shipping_missing (body req) \<and>
             (\<exists>l. orderedItems (body req) = Some (JArr [l]) \<and> product_id (product l) = pid \<and>
                  quantity l = 1)"
    and "find (\<lambda>x. p_id x = pid) (products d) = Some p"
    and "p_stock p = 0"
    and "\<forall>q. \<not> rejects e q"
  shows "length (fst (place_seq e reqs d)) = length reqs \<and>
     (\<forall>r \<in> set (fst (place_seq e reqs d)).
        nexts r = [ErrorHandler (''Only 0 units available for '' @ p_name p) 400]) \<and>
     find (\<lambda>x. p_id x = pid) (products (snd (place_seq e reqs d))) = Some p"
  using assms
proof (induction reqs arbitrary: d)
  case Nil
  then show ?case by simp
next
  case (Cons req reqs)
  from Cons.prems(1) obtain l where
    l: "\<not> shipping_missing (body req)" "orderedItems (body req) = Some (JArr [l])"
       "product_id (product l) = pid" "quantity l = 1"
    by auto
  have f: "find (\<lambda>x. p_id x = product_id (product l)) (products d) = Some p"
    using Cons.prems(2) l(3) by simp
  have lt: "p_stock p < quantity l" using Cons.prems(3) l(4) by simp
  note b = place_single_beyond_stock[OF l(1) l(2) f lt Cons.prems(4)]
  have d0: "decimal_of_int (p_stock p) = ''0''"
    using Cons.prems(3) by (simp add: decimal_of_int_def)
  have f': "find (\<lambda>x. p_id x = pid) (products (store (placeNewOrder e req d))) = Some p"
    using Cons.prems(2) b(3) by simp
  have rest: "\<forall>req \<in> set reqs. \<not> shipping_missing (body req) \<and>
             (\<exists>l. orderedItems (body req) = Some (JArr [l]) \<and> product_id (product l) = pid \<and>
                  quantity l = 1)"
    using Cons.prems(1) by simp
  from Cons.IH[OF rest f' Cons.prems(3,4)] b(1) d0
  show ?case by (simp add: place_seq_Cons del: place_seq.simps)
qed

text \<open>
  C9, as amended. Take placements that run one after the other, none starting
  before the one before it has ended, on a store that rejects no statement; every
  request has complete shipping details and a cart of exactly one line, and that line
  asks for one unit of one and the same product, whose stock is 1 at the start. Then
  the first is placed, with no error handed to \<open>next\<close> and a success response;
  every later one hands the 400 error of the stock check, that only 0 units of the
  product are available, to \<open>next\<close>; and the stock of the product is 0 at the end.
  What else a request does after its stock check has failed is the matter of C4 and
  is not stated here, and neither is anything about carts of several lines.
\<close>

theorem sequential_last_unit:
  assumes "\<forall>r \<in> set (req # reqs). \<not> shipping_missing (body r) \<and>
             (\<exists>l. orderedItems (body r) = Some (JArr [l]) \<and> product_id (product l) = pid \<and>
                  quantity l = 1)"
    and "find (\<lambda>x. p_id x = pid) (products d) = Some p"
    and "p_stock p = 1"
    and "\<forall>q. \<not> rejects e q"
  shows "length (fst (place_seq e (req # reqs) d)) = Suc (length reqs) \<and>
     nexts (hd (fst (place_seq e (req # reqs) d))) = [] \<and>
     (\<exists>resp. ending (hd (fst (place_seq e (req # reqs) d))) = Json resp) \<and>
     (\<forall>r \<in> set (tl (fst (place_seq e (req # reqs) d))).
        nexts r = [ErrorHandler (''Only 0 units available for '' @ p_name p) 400]) \<and>
     find (\<lambda>x. p_id x = pid) (products (snd (place_seq e (req # reqs) d))) =
       Some (p\<lparr>p_stock := 0\<rparr>)"
proof -
  from assms(1) obtain l where
    l: "\<not> shipping_missing (body req)" "orderedItems (body req) = Some (JArr [l])"
       "product_id (product l) = pid" "quantity l = 1"
    by auto
  have f: "find (\<lambda>x. p_id x = product_id (product l)) (products d) = Some p"
    using assms(2) l(3) by simp
  have le: "quantity l \<le> p_stock p" using assms(3) l(4) by simp
  note a = place_single_valid[OF l(1) l(2) f le assms(4)]
  have f': "find (\<lambda>x. p_id x = pid) (products (store (placeNewOrder e req d))) =
            Some (p\<lparr>p_stock := 0\<rparr>)"
    using a(3) l(3,4) assms(3) by simp
  have rest: "\<forall>r \<in> set reqs. \<not> shipping_missing (body r) \<and>
             (\<exists>l. orderedItems (body r) = Some (JArr [l]) \<and> product_id (product l) = pid \<and>
                  quantity l = 1)"
    using assms(1) by simp
  have "p_stock (p\<lparr>p_stock := 0\<rparr>) = 0" by simp
  from place_seq_sold_out[OF rest f' this assms(4)] a(1,2)
  show ?thesis by (simp add: place_seq_Cons del: place_seq.simps)
qed

theorem sequential_last_unit_witness:
  "find (\<lambda>x. p_id x = ''P3'') (products ex_db_last_unit) =
     Some \<lparr>p_id = ''P3'', p_price = 40, p_stock = 1, p_name = ''Vase''\<rparr> \<and>
   length (fst (place_seq ex_env
     [ex_req_last_unit ''U1'', ex_req_last_unit ''U2'', ex_req_last_unit ''U3''] ex_db_last_unit)) = 3 \<and>
   nexts (hd (fst (place_seq ex_env
     [ex_req_last_unit ''U1'', ex_req_last_unit ''U2'', ex_req_last_unit ''U3''] ex_db_last_unit))) = [] \<and>
   (\<exists>resp. ending (hd (fst (place_seq ex_env
     [ex_req_last_unit ''U1'', ex_req_last_unit ''U2'', ex_req_last_unit ''U3''] ex_db_last_unit))) =
       Json resp) \<and>
   list_all (\<lambda>r. nexts r = [ErrorHandler ''Only 0 units available for Vase'' 400])
     (tl (fst (place_seq ex_env
       [ex_req_last_unit ''U1'', ex_req_last_unit ''U2'', ex_req_last_unit ''U3''] ex_db_last_unit))) \<and>
   find (\<lambda>x. p_id x = ''P3'') (products (snd (place_seq ex_env
     [ex_req_last_unit ''U1'', ex_req_last_unit ''U2'', ex_req_last_unit ''U3''] ex_db_last_unit))) =
     Some \<lparr>p_id = ''P3'', p_price = 40, p_stock = 0, p_name = ''Vase''\<rparr>"
proof -
  let ?p = "\<lparr>p_id = ''P3'', p_price = 40, p_stock = 1, p_name = ''Vase''\<rparr>"
  have h1: "\<forall>r \<in> set (ex_req_last_unit ''U1'' # [ex_req_last_unit ''U2'', ex_req_last_unit ''U3'']).
      \<not> shipping_missing (body r) \<and>
      (\<exists>l. orderedItems (body r) = Some (JArr [l]) \<and> product_id (product l) = ''P3'' \<and>
           quantity l = 1)"
    by (simp add: ex_req_last_unit_def ex_body_def ex_line_def shipping_missing_def falsy_def)
  have h2: "find (\<lambda>x. p_id x = ''P3'') (products ex_db_last_unit) = Some ?p"
    by (simp add: ex_db_last_unit_def)
  have h3: "p_stock ?p = 1" by simp
  have h4: "\<forall>q. \<not> rejects ex_env q" by (simp add: ex_env_def)
  note t = sequential_last_unit[OF h1 h2 h3 h4]
  show ?thesis using h2 t by (simp add: list_all_iff del: place_seq.simps)
qed

text \<open>
  C9 as stated fails. The handler has no transaction and no lock: two placements
  for the last unit of the vase, their statements taken in turn by the store, both
  read the stock 1 before either decrements it. Both pass the check, both are
  placed with a success response, and the stock of the vase is -1.
\<close>

theorem concurrent_last_unit_counterexample:
  "fst (sys_run ex_env [0, 1, 0, 1, 0, 1, 0, 1, 0, 1, 0, 1]
     [task_begin ex_env (ex_req_last_unit ''U1''), task_begin ex_env (ex_req_last_unit ''U2'')]
     ex_db_last_unit) =
     [Ended []
        (Json \<lparr>r_success = True, r_message = ''Order placed successfully.'',
           r_order = \<lparr>o_id = ''id0'', buyer_id = ''U1'', total_price = 49, tax_price = 18 / 100,
                      shipping_price = 2, order_status = JStr ''Processing'', paid_at = Some 1000\<rparr>,
           r_total_price = 49\<rparr>),
      Ended []
        (Json \<lparr>r_success = True, r_message = ''Order placed successfully.'',
           r_order = \<lparr>o_id = ''id1'', buyer_id = ''U2'', total_price = 49, tax_price = 18 / 100,
                      shipping_price = 2, order_status = JStr ''Processing'', paid_at = Some 1000\<rparr>,
           r_total_price = 49\<rparr>)] \<and>
   products (snd (sys_run ex_env [0, 1, 0, 1, 0, 1, 0, 1, 0, 1, 0, 1]
     [task_begin ex_env (ex_req_last_unit ''U1''), task_begin ex_env (ex_req_last_unit ''U2'')]
     ex_db_last_unit)) =
     [\<lparr>p_id = ''P3'', p_price = 40, p_stock = - 1, p_name = ''Vase''\<rparr>]"
  by code_simp

subsection \<open>The order that fetchSingleOrder returns\<close>

lemma remdups_constant:
  "xs \<noteq> [] \<Longrightarrow> \<forall>x \<in> set xs. x = k \<Longrightarrow> remdups xs = [k]"
proof (induction xs)
  case Nil
  then show ?case by simp
next
  case (Cons a xs)
  then show ?case by (cases xs) auto
qed

lemma left_join_items_filter:
  "List.map_filter (\<lambda>r. fst (snd r)) (map (\<lambda>oi. (od, oi, so)) (left_join c t)) = filter c t"
proof (cases "filter c t")
  case Nil
  then show ?thesis by (simp add: left_join_def List.map_filter_def)
next
  case (Cons m ms)
  have "List.map_filter (\<lambda>r. fst (snd r)) (map (\<lambda>oi. (od, oi, so)) (map Some xs)) = xs" for xs
    by (induction xs) (simp_all add: List.map_filter_def)
  then show ?thesis using Cons by (simp add: left_join_def)
qed

lemma left_join_nonempty: "left_join c t \<noteq> []"
  by (simp add: left_join_def split: list.splits)

text \<open>
  For an order that exists (one order row with the identifier, and at most one
  shipping record for it), \<open>fetchSingleOrder\<close> responds with the order row, the
  list of all its items (empty when it has none) and its shipping fields (each
  \<open>null\<close> when it has no shipping record).
\<close>

theorem fetch_existing_order:
  assumes "\<not> rejects e Select_order_joined"
    and "sql_select_order orderId d = [od]"
    and "length (filter (\<lambda>s. s_order_id s = Some orderId) (shipping_info d)) \<le> 1"
  shows "fetchSingleOrder e orderId d =
     \<lparr>nexts = [],
      ending = Json \<lparr>res_success = True, res_message = ''Order fetched.'',
        res_data = Some
          \<lparr>jo_order = od,
           jo_order_items =
             map item_json (filter (\<lambda>oi. oi_order_id oi = Some orderId) (order_items d)),
           jo_shipping_info =
             shipping_object
               (case filter (\<lambda>s. s_order_id s = Some orderId) (shipping_info d) of
                  [] \<Rightarrow> None
                | s # ss \<Rightarrow> Some s)\<rparr>\<rparr>,
      store = d\<rparr>"
proof -
  let ?ships = "filter (\<lambda>s. s_order_id s = Some orderId) (shipping_info d)"
  let ?so = "case ?ships of [] \<Rightarrow> None | s # ss \<Rightarrow> Some s"
  let ?ois = "left_join (\<lambda>oi. oi_order_id oi = Some orderId) (order_items d)"
  let ?rows = "map (\<lambda>oi. (od, oi, ?so)) ?ois"
  have sel: "filter (\<lambda>od. o_id od = orderId) (orders d) = [od]"
    using assms(2) by (simp add: sql_select_order_def)
  then have "od \<in> set (filter (\<lambda>od. o_id od = orderId) (orders d))" by simp
  then have oid: "o_id od = orderId" by simp
  have lj: "left_join (\<lambda>s. s_order_id s = Some orderId) (shipping_info d) = [?so]"
    using assms(3) by (cases ?ships) (simp_all add: left_join_def)
  have rows: "joined_rows orderId d = ?rows"
    by (simp add: joined_rows_def sel oid lj)
  have ne: "?rows \<noteq> []" by (simp add: left_join_nonempty)
  have keys: "remdups (map group_key ?rows) = [(orderId, map_option s_id ?so)]"
    by (rule remdups_constant) (simp_all add: left_join_nonempty group_key_def oid)
  have grp: "group_by_key ?rows = [?rows]"
    unfolding group_by_key_def keys
    by (simp add: group_key_def oid filter_map comp_def)
  obtain oi rest where r: "?rows = (od, oi, ?so) # rest"
    using ne by (cases ?ois) auto
  have agg: "aggregate ?rows =
     Some \<lparr>jo_order = od,
           jo_order_items =
             map item_json (filter (\<lambda>oi. oi_order_id oi = Some orderId) (order_items d)),
           jo_shipping_info = shipping_object ?so\<rparr>"
    unfolding aggregate_def
    by (subst (1) r) (simp add: left_join_items_filter)
  have "sql_select_order_joined orderId d =
     [\<lparr>jo_order = od,
       jo_order_items =
         map item_json (filter (\<lambda>oi. oi_order_id oi = Some orderId) (order_items d)),
       jo_shipping_info = shipping_object ?so\<rparr>]"
    by (simp add: sql_select_order_joined_def rows grp List.map_filter_def agg)
  then show ?thesis using assms(1) by (simp add: fetchSingleOrder_def)
qed

theorem fetch_existing_order_witness:
  "sql_select_order ''id0'' ex_db_placed = [ex_order] \<and>
   fetchSingleOrder ex_env ''id0'' ex_db_placed =
     \<lparr>nexts = [],
      ending = Json \<lparr>res_success = True, res_message = ''Order fetched.'',
         res_data = Some \<lparr>jo_order = ex_order,
            jo_order_items = [\<lparr>j_order_item_id = ''id1'', j_order_id = Some ''id0'',
                                j_product_id = ''P1'', j_quantity = 2, j_price = 30\<rparr>],
            jo_shipping_info = \<lparr>j_full_name = Some (JStr ''Ann Lee''), j_state = Some (JStr ''Goa''),
               j_city = Some (JStr ''Panaji''), j_country = Some (JStr ''India''),
               j_address = Some (JStr ''1 Main St''), j_pincode = Some (JNum 403001),
               j_phone = Some (JStr ''5550100'')\<rparr>\<rparr>\<rparr>,
      store = ex_db_placed\<rparr>"
proof -
  have h1: "\<not> rejects ex_env Select_order_joined" by (simp add: ex_env_def)
  have h2: "sql_select_order ''id0'' ex_db_placed = [ex_order]"
    by (simp add: sql_select_order_def ex_db_placed_def ex_order_def)
  have h3: "length (filter (\<lambda>s. s_order_id s = Some ''id0'') (shipping_info ex_db_placed)) \<le> 1"
    by (simp add: ex_db_placed_def)
  from fetch_existing_order[OF h1 h2 h3] h2 show ?thesis
    by (simp add: ex_db_placed_def item_json_def shipping_object_def)
qed

subsection \<open>The errors of the lines\<close>

lemma forEach_callback_nexts:
  "\<exists>new. fe_nexts (forEach_callback ps item k st) = fe_nexts st @ new"
  by (simp add: forEach_callback_def split: option.splits)

lemma forEach_items_nexts_kept:
  "x \<in> set (fe_nexts st) \<Longrightarrow> x \<in> set (fe_nexts (forEach_items ps items k st))"
proof (induction items arbitrary: k st)
  case Nil
  then show ?case by simp
next
  case (Cons item items)
  from forEach_callback_nexts[of ps item k st] Cons.prems
  have "x \<in> set (fe_nexts (forEach_callback ps item k st))" by auto
  then show ?case using Cons.IH by simp
qed

lemma forEach_items_not_found:
  "item \<in> set items \<Longrightarrow>
   find (\<lambda>x. p_id x = product_id (product item)) ps = None \<Longrightarrow>
   ErrorHandler (''Product not found for ID: '' @ product_id (product item)) 404
     \<in> set (fe_nexts (forEach_items ps items k st))"
proof (induction items arbitrary: k st)
  case Nil
  then show ?case by simp
next
  case (Cons a items)
  show ?case
  proof (cases "item = a")
    case True
    with Cons.prems(2) show ?thesis
      by (auto simp: forEach_callback_def intro!: forEach_items_nexts_kept)
  next
    case False
    with Cons.prems Cons.IH show ?thesis by simp
  qed
qed

lemma forEach_items_beyond_stock:
  "item \<in> set items \<Longrightarrow>
   find (\<lambda>x. p_id x = product_id (product item)) ps = Some p \<Longrightarrow>
   p_stock p < quantity item \<Longrightarrow>
   ErrorHandler (''Only '' @ decimal_of_int (p_stock p) @ '' units available for '' @ p_name p) 400
     \<in> set (fe_nexts (forEach_items ps items k st))"
proof (induction items arbitrary: k st)
  case Nil
  then show ?case by simp
next
  case (Cons a items)
  show ?case
  proof (cases "item = a")
    case True
    with Cons.prems(2,3) show ?thesis
      by (auto simp: forEach_callback_def intro!: forEach_items_nexts_kept)
  next
    case False
    with Cons.prems Cons.IH show ?thesis by simp
  qed
qed

lemma nexts_place_items:
  "\<not> rejects e Select_products \<Longrightarrow>
   nexts (place_items e req items d) =
   fe_nexts (forEach_items
     (sql_select_products (map (\<lambda>item. product_id (product item)) items) d) items 0
     \<lparr>fe_total_price = 0, fe_values = [], fe_placeholders = [], fe_nexts = []\<rparr>)"
  by (simp add: place_items_def Let_def split: prod.splits option.splits)

text \<open>
  For every line of a cart that passed validation, when the product lookup is not
  rejected: a line whose product is not among the products hands the 404 error with
  the product identifier to \<open>next\<close>, and a line whose quantity is beyond the stock
  hands the 400 error with the remaining stock and the name of the product.
\<close>

theorem line_errors_reported:
  assumes "\<not> shipping_missing (body req)"
    and "orderedItems (body req) = Some (JArr items)"
    and "item \<in> set items"
    and "\<not> rejects e Select_products"
  shows "(find (\<lambda>x. p_id x = product_id (product item)) (products d) = None \<longrightarrow>
       ErrorHandler (''Product not found for ID: '' @ product_id (product item)) 404
         \<in> set (nexts (placeNewOrder e req d))) \<and>
     (\<forall>p. find (\<lambda>x. p_id x = product_id (product item)) (products d) = Some p \<and>
          p_stock p < quantity item \<longrightarrow>
       ErrorHandler (''Only '' @ decimal_of_int (p_stock p) @ '' units available for '' @ p_name p) 400
         \<in> set (nexts (placeNewOrder e req d)))"
proof -
  from assms(3) have ne: "items \<noteq> []" by auto
  have run: "placeNewOrder e req d = place_items e req items d"
    using assms(1,2) ne by (rule placeNewOrder_array)
  have sel: "find (\<lambda>x. p_id x = product_id (product item))
               (sql_select_products (map (\<lambda>item. product_id (product item)) items) d) =
             find (\<lambda>x. p_id x = product_id (product item)) (products d)"
    using assms(3) by (simp add: find_selected)
  show ?thesis
    unfolding run nexts_place_items[OF assms(4)]
    using forEach_items_not_found[OF assms(3), where ps = "sql_select_products
            (map (\<lambda>item. product_id (product item)) items) d"]
      forEach_items_beyond_stock[OF assms(3), where ps = "sql_select_products
            (map (\<lambda>item. product_id (product item)) items) d"]
    by (simp add: sel)
qed

theorem line_errors_reported_witness:
  "ex_line ''P2'' 4 \<in> set [ex_line ''P9'' 1, ex_line ''P2'' 4] \<and>
   find (\<lambda>x. p_id x = ''P9'') (products ex_db) = None \<and>
   find (\<lambda>x. p_id x = ''P2'') (products ex_db) =
     Some \<lparr>p_id = ''P2'', p_price = 10, p_stock = 3, p_name = ''Mug''\<rparr> \<and>
   ErrorHandler ''Product not found for ID: P9'' 404 \<in> set (nexts (placeNewOrder ex_env
     \<lparr>body = ex_body (Some (JArr [ex_line ''P9'' 1, ex_line ''P2'' 4])), user_id = ''U1''\<rparr> ex_db)) \<and>
   ErrorHandler ''Only 3 units available for Mug'' 400 \<in> set (nexts (placeNewOrder ex_env
     \<lparr>body = ex_body (Some (JArr [ex_line ''P9'' 1, ex_line ''P2'' 4])), user_id = ''U1''\<rparr> ex_db))"
proof -
  let ?items = "[ex_line ''P9'' 1, ex_line ''P2'' 4]"
  let ?req = "\<lparr>body = ex_body (Some (JArr ?items)), user_id = ''U1''\<rparr>"
  let ?p = "\<lparr>p_id = ''P2'', p_price = 10, p_stock = 3, p_name = ''Mug''\<rparr>"
  have h1: "\<not> shipping_missing (body ?req)"
    by (simp add: shipping_missing_def falsy_def ex_body_def)
  have h2: "orderedItems (body ?req) = Some (JArr ?items)" by (simp add: ex_body_def)
  have i1: "ex_line ''P9'' 1 \<in> set ?items" and i2: "ex_line ''P2'' 4 \<in> set ?items" by simp_all
  have h4: "\<not> rejects ex_env Select_products" by (simp add: ex_env_def)
  have f1: "find (\<lambda>x. p_id x = ''P9'') (products ex_db) = None" by (simp add: ex_db_def)
  have f2: "find (\<lambda>x. p_id x = ''P2'') (products ex_db) = Some ?p" by (simp add: ex_db_def)
  have a: "ErrorHandler ''Product not found for ID: P9'' 404 \<in> set (nexts (placeNewOrder ex_env ?req ex_db))"
    using line_errors_reported[OF h1 h2 i1 h4, of ex_db, THEN conjunct1] f1
    by (simp add: ex_line_def)
  have d3: "decimal_of_int 3 = ''3''" by (simp add: decimal_of_int_def)
  have b: "ErrorHandler ''Only 3 units available for Mug'' 400 \<in> set (nexts (placeNewOrder ex_env ?req ex_db))"
    using line_errors_reported[OF h1 h2 i2 h4, of ex_db, THEN conjunct2, rule_format, of ?p] f2 d3
    by (simp add: ex_line_def)
  show ?thesis using i2 f1 f2 a b by simp
qed

end
